theory Spec2Isabelle
  imports Complex_Main "HOL-Library.AList" "HOL-Library.Sublist"
begin

section \<open>Python values\<close>

text \<open>
  Exceptions of the Python code are values of \<open>error\<close>; a function that may raise
  returns \<open>error + 'a\<close> with \<open>Inl\<close> the exception.  \<open>SessionError\<close> is the failure of
  reading the session registry of a process that has no session; \<open>HostError\<close> is any
  exception of the host training loop.
\<close>

datatype error =
    KeyError string
  | ValueError
  | TypeError
  | IndexError
  | AttributeError
  | RuntimeError string
  | OverflowError
  | SessionError
  | HostError string

text \<open>
  A Python \<open>dict\<close> is an association list in insertion order: \<open>d[k]\<close> is \<open>getitem\<close>,
  \<open>d[k] = v\<close> is \<open>AList.update\<close> (overwrite in place, or append a new key), iteration
  yields the keys in list order.
\<close>

type_synonym ('k, 'v) dict = "('k \<times> 'v) list"

definition getitem :: "(string, 'v) dict \<Rightarrow> string \<Rightarrow> error + 'v" where
  "getitem d k = (case map_of d k of None \<Rightarrow> Inl (KeyError k) | Some v \<Rightarrow> Inr v)"

text \<open>
  A tensor of the host framework is the list of its elements (the shape is dropped).
  \<open>v.item()\<close> converts a one-element tensor to a scalar and raises on any other.
\<close>

datatype 'v tensor = Tensor "'v list"

fun item :: "'v tensor \<Rightarrow> error + 'v" where
  "item (Tensor [x]) = Inr x"
| "item (Tensor xs) = Inl ValueError"

text \<open>
  Numbers of \<open>get_tune_ddp_resources\<close>: Python ints (unbounded) and floats.  A float is
  read as a real number: the rounding of doubles is not modelled, their range is.
  \<open>float_of_int\<close> is the conversion of the int operand in \<open>int * float\<close> and
  \<open>int - float\<close>: it raises \<open>OverflowError\<close> when the int, rounded to the nearest double
  (ties to even), falls beyond the largest double \<open>2^1024 - 2^971\<close>, that is when its
  magnitude is at least \<open>2^1024 - 2^970\<close>.
\<close>

datatype num = PyInt int | PyFloat real

definition float_of_int :: "int \<Rightarrow> error + real" where
  "float_of_int n =
     (if 2 ^ 1024 - 2 ^ 970 \<le> \<bar>n\<bar> then Inl OverflowError else Inr (of_int n))"

section \<open>The trainer of the host framework\<close>

record model_checkpoint =
  best_model_path :: "string option"

record 'sd lightning_module =
  weights :: 'sd

definition state_dict :: "'sd lightning_module \<Rightarrow> 'sd" where
  "state_dict m = weights m"

definition load_state_dict :: "'sd lightning_module \<Rightarrow> 'sd \<Rightarrow> 'sd lightning_module" where
  "load_state_dict m sd = m\<lparr>weights := sd\<rparr>"

record ('sd, 'v) trainer =
  model :: "'sd lightning_module"
  on_gpu :: bool
  root_gpu :: "nat option"
  checkpoint_callback :: "model_checkpoint option"
  running_sanity_check :: bool
  callback_metrics :: "(string, 'v tensor) dict"
  global_step :: int

section \<open>Session registry and relay queue\<close>

text \<open>
  A relay action is one of the two zero-argument callables the callbacks enqueue:
  \<open>lambda: tune.report(**report_dict)\<close> and
  \<open>lambda: self._create_checkpoint(checkpoint_dict, global_step, self._filename)\<close>.
\<close>

datatype ('v, 'c) action =
    Report "(string, 'v) dict"
  | CreateCheckpoint 'c int string

text \<open>
  Modelled from the spec: the class \<open>Queue\<close> of \<open>ray_lightning.util\<close> is not among the
  sources.  The handle records the actor options it was created with; the pending
  callables of the run's queue are the field \<open>relay\<close> of the process state below, in
  FIFO order.
\<close>

record Queue =
  actor_options :: "(string, nat) dict"

text \<open>
  Modelled from the spec: the module \<open>ray_lightning.session\<close> (\<open>init_session\<close>,
  \<open>put_queue\<close>, \<open>get_actor_rank\<close>) is not among the sources.  A session is the pair
  (rank, optional queue reference), process-local; \<open>init_session\<close> overwrites any prior
  session; \<open>put_queue\<close> enqueues an action and is a no-op if no session or no queue is
  active.  The spec does not say what \<open>get_actor_rank\<close> does in a process without a
  session; here it fails with \<open>SessionError\<close>.

  The field \<open>snapshots\<close> logs the checkpoint snapshots this process has computed, so
  that computing one is an observable effect.
\<close>

record Session =
  rank :: nat
  queue :: "Queue option"

record ('v, 'c) proc =
  session :: "Session option"
  relay :: "('v, 'c) action list"
  snapshots :: "'c list"

definition init_session :: "nat \<Rightarrow> Queue option \<Rightarrow> ('v, 'c) proc \<Rightarrow> ('v, 'c) proc" where
  "init_session r q p = p\<lparr>session := Some \<lparr>rank = r, queue = q\<rparr>\<rparr>"

definition put_queue :: "('v, 'c) action \<Rightarrow> ('v, 'c) proc \<Rightarrow> ('v, 'c) proc" where
  "put_queue a p =
     (case session p of
        None \<Rightarrow> p
      | Some s \<Rightarrow> (case queue s of None \<Rightarrow> p | Some q \<Rightarrow> p\<lparr>relay := relay p @ [a]\<rparr>))"

definition get_actor_rank :: "('v, 'c) proc \<Rightarrow> error + nat" where
  "get_actor_rank p = (case session p of None \<Rightarrow> Inl SessionError | Some s \<Rightarrow> Inr (rank s))"

section \<open>tune.py\<close>

subsection \<open>get_tune_ddp_resources\<close>

text \<open>
  The body builds the local dictionary \<open>resources\<close> and ends without a \<open>return\<close>
  statement, so a call that completes evaluates to Python's \<open>None\<close>.  With \<open>use_gpu\<close>
  the product \<open>num_workers * 0.99\<close> converts \<open>num_workers\<close> to a float, and
  \<open>math.ceil(total_worker_gpus) - total_worker_gpus\<close> converts the ceiling, an int.
\<close>

definition get_tune_ddp_resources ::
  "int \<Rightarrow> int \<Rightarrow> bool \<Rightarrow> error + (string, num) dict option" where
  "get_tune_ddp_resources num_workers cpus_per_worker use_gpu =
     (let resources = [];
          resources = AList.update ''cpu'' (PyInt 1) resources;
          resources = AList.update ''extra_cpu'' (PyInt (num_workers * cpus_per_worker)) resources
      in if use_gpu then
           (case float_of_int num_workers of
              Inl e \<Rightarrow> Inl e
            | Inr workers_float \<Rightarrow>
                (let total_worker_gpus = workers_float * (99 / 100);
                     resources = AList.update ''extra_gpu'' (PyFloat total_worker_gpus) resources
                 in case float_of_int \<lceil>total_worker_gpus\<rceil> of
                      Inl e \<Rightarrow> Inl e
                    | Inr ceil_float \<Rightarrow>
                        (let resources = AList.update ''gpu''
                               (PyFloat (ceil_float - total_worker_gpus)) resources
                         in Inr None)))
         else Inr None)"

subsection \<open>TuneCallback\<close>

text \<open>
  The base class of the tuning library: a callback holds the list \<open>on\<close> of lifecycle
  events at which it fires (a single event name is wrapped into a list), and the hook of
  an event calls \<open>_handle\<close> exactly when the event is in that list.
\<close>

datatype on_arg = OnStr string | OnList "string list"

fun TuneCallback_init :: "on_arg \<Rightarrow> string list" where
  "TuneCallback_init (OnStr s) = [s]"
| "TuneCallback_init (OnList l) = l"

record TuneCallback =
  on :: "string list"

definition TuneCallback_hook ::
  "string \<Rightarrow> ('z TuneCallback_scheme \<Rightarrow> 't \<Rightarrow> 'p \<Rightarrow> (error + unit) \<times> 'p)
     \<Rightarrow> 'z TuneCallback_scheme \<Rightarrow> 't \<Rightarrow> 'p \<Rightarrow> (error + unit) \<times> 'p" where
  "TuneCallback_hook event handle self trainer p =
     (if event \<in> set (on self) then handle self trainer p else (Inr (), p))"

subsection \<open>TuneReportCallback\<close>

datatype metrics_arg =
    ArgNone
  | ArgStr string
  | ArgList "string list"
  | ArgDict "(string, string) dict"

datatype metrics_sel =
    MNone
  | MList "string list"
  | MDict "(string, string) dict"

record TuneReportCallback = TuneCallback +
  metrics :: metrics_sel

fun TuneReportCallback_init :: "metrics_arg \<Rightarrow> on_arg \<Rightarrow> TuneReportCallback" where
  "TuneReportCallback_init ArgNone on_a = \<lparr>on = TuneCallback_init on_a, metrics = MNone\<rparr>"
| "TuneReportCallback_init (ArgStr s) on_a = \<lparr>on = TuneCallback_init on_a, metrics = MList [s]\<rparr>"
| "TuneReportCallback_init (ArgList l) on_a = \<lparr>on = TuneCallback_init on_a, metrics = MList l\<rparr>"
| "TuneReportCallback_init (ArgDict d) on_a = \<lparr>on = TuneCallback_init on_a, metrics = MDict d\<rparr>"

text \<open>Truth value of \<open>self._metrics\<close>: \<open>None\<close>, the empty list and the empty dict are false.\<close>

fun truthy :: "metrics_sel \<Rightarrow> bool" where
  "truthy MNone = False"
| "truthy (MList l) = (l \<noteq> [])"
| "truthy (MDict d) = (d \<noteq> [])"

text \<open>What \<open>for key in self._metrics\<close> iterates over.\<close>

fun iter_keys :: "metrics_sel \<Rightarrow> string list" where
  "iter_keys MNone = []"
| "iter_keys (MList l) = l"
| "iter_keys (MDict d) = map fst d"

text \<open>The comprehension \<open>{k: v.item() for k, v in trainer.callback_metrics.items()}\<close>.\<close>

fun report_all :: "(string, 'v) dict \<Rightarrow> (string, 'v tensor) dict \<Rightarrow> error + (string, 'v) dict" where
  "report_all report_dict [] = Inr report_dict"
| "report_all report_dict ((k, v) # kvs) =
     (case item v of
        Inl e \<Rightarrow> Inl e
      | Inr x \<Rightarrow> report_all (AList.update k x report_dict) kvs)"

text \<open>
  The name of the host metric read for \<open>key\<close>: \<open>self._metrics[key]\<close> if the selection
  is a dict, \<open>key\<close> itself otherwise.
\<close>

fun metric_name :: "metrics_sel \<Rightarrow> string \<Rightarrow> error + string" where
  "metric_name (MDict d) key = getitem d key"
| "metric_name sel key = Inr key"

text \<open>The loop \<open>for key in self._metrics: ...\<close> on the keys still to visit.\<close>

fun report_selected ::
  "metrics_sel \<Rightarrow> (string, 'v tensor) dict \<Rightarrow> (string, 'v) dict \<Rightarrow> string list
     \<Rightarrow> error + (string, 'v) dict" where
  "report_selected sel cm report_dict [] = Inr report_dict"
| "report_selected sel cm report_dict (key # keys) =
     (case metric_name sel key of
        Inl e \<Rightarrow> Inl e
      | Inr metric \<Rightarrow>
          (case getitem cm metric of
             Inl e \<Rightarrow> Inl e
           | Inr t \<Rightarrow>
               (case item t of
                  Inl e \<Rightarrow> Inl e
                | Inr x \<Rightarrow> report_selected sel cm (AList.update key x report_dict) keys)))"

definition get_report_dict ::
  "TuneReportCallback \<Rightarrow> ('sd, 'v) trainer \<Rightarrow> error + (string, 'v) dict option" where
  "get_report_dict self trainer =
     (if running_sanity_check trainer then Inr None
      else if \<not> truthy (metrics self) then
        (case report_all [] (callback_metrics trainer) of
           Inl e \<Rightarrow> Inl e
         | Inr report_dict \<Rightarrow> Inr (Some report_dict))
      else
        (case report_selected (metrics self) (callback_metrics trainer) []
                (iter_keys (metrics self)) of
           Inl e \<Rightarrow> Inl e
         | Inr report_dict \<Rightarrow> Inr (Some report_dict)))"

definition TuneReportCallback_handle ::
  "TuneReportCallback \<Rightarrow> ('sd, 'v) trainer \<Rightarrow> ('v, 'c) proc \<Rightarrow> (error + unit) \<times> ('v, 'c) proc" where
  "TuneReportCallback_handle self trainer p =
     (case get_actor_rank p of
        Inl e \<Rightarrow> (Inl e, p)
      | Inr r \<Rightarrow>
          (if r = 0 then
             (case get_report_dict self trainer of
                Inl e \<Rightarrow> (Inl e, p)
              | Inr None \<Rightarrow> (Inr (), p)
              | Inr (Some report_dict) \<Rightarrow> (Inr (), put_queue (Report report_dict) p))
           else (Inr (), p)))"

subsection \<open>_TuneCheckpointCallback\<close>

record TuneCheckpointCallback = TuneCallback +
  filename :: string

definition TuneCheckpointCallback_init :: "string \<Rightarrow> on_arg \<Rightarrow> TuneCheckpointCallback" where
  "TuneCheckpointCallback_init fname on_a = \<lparr>on = TuneCallback_init on_a, filename = fname\<rparr>"

text \<open>
  \<open>dump_checkpoint\<close> is the host framework's \<open>trainer.checkpoint_connector.dump_checkpoint\<close>,
  a parameter.
\<close>

definition TuneCheckpointCallback_handle ::
  "(('sd, 'v) trainer \<Rightarrow> 'c) \<Rightarrow> TuneCheckpointCallback \<Rightarrow> ('sd, 'v) trainer \<Rightarrow> ('v, 'c) proc
     \<Rightarrow> (error + unit) \<times> ('v, 'c) proc" where
  "TuneCheckpointCallback_handle dump_checkpoint self trainer p =
     (if running_sanity_check trainer then (Inr (), p)
      else
        (let checkpoint_dict = dump_checkpoint trainer;
             p = p\<lparr>snapshots := snapshots p @ [checkpoint_dict]\<rparr>;
             step = global_step trainer
         in case get_actor_rank p of
              Inl e \<Rightarrow> (Inl e, p)
            | Inr r \<Rightarrow>
                (if r = 0 then
                   (Inr (), put_queue (CreateCheckpoint checkpoint_dict step (filename self)) p)
                 else (Inr (), p))))"

subsection \<open>TuneReportCheckpointCallback\<close>

record TuneReportCheckpointCallback = TuneCallback +
  checkpoint_cb :: TuneCheckpointCallback
  report_cb :: TuneReportCallback

definition TuneReportCheckpointCallback_init ::
  "metrics_arg \<Rightarrow> string \<Rightarrow> on_arg \<Rightarrow> TuneReportCheckpointCallback" where
  "TuneReportCheckpointCallback_init m fname on_a =
     \<lparr>on = TuneCallback_init on_a,
      checkpoint_cb = TuneCheckpointCallback_init fname on_a,
      report_cb = TuneReportCallback_init m on_a\<rparr>"

definition TuneReportCheckpointCallback_handle ::
  "(('sd, 'v) trainer \<Rightarrow> 'c) \<Rightarrow> TuneReportCheckpointCallback \<Rightarrow> ('sd, 'v) trainer
     \<Rightarrow> ('v, 'c) proc \<Rightarrow> (error + unit) \<times> ('v, 'c) proc" where
  "TuneReportCheckpointCallback_handle dump_checkpoint self trainer p =
     (case TuneCheckpointCallback_handle dump_checkpoint (checkpoint_cb self) trainer p of
        (Inl e, p') \<Rightarrow> (Inl e, p')
      | (Inr u, p') \<Rightarrow> TuneReportCallback_handle (report_cb self) trainer p')"

section \<open>ray_horovod.py\<close>

text \<open>
  Which optional libraries could be imported, and what the tuning library's own
  \<open>is_session_enabled\<close> answers.  Without the tuning library \<open>tune.py\<close> defines
  \<open>is_session_enabled\<close> as the constant \<open>False\<close>.
\<close>

record env =
  HOROVOD_AVAILABLE :: bool
  TUNE_INSTALLED :: bool
  tune_session :: bool

definition is_session_enabled :: "env \<Rightarrow> bool" where
  "is_session_enabled e = (if TUNE_INSTALLED e then tune_session e else False)"

text \<open>
  The shared-object store: \<open>ray.put\<close> stores an immutable copy and returns a reference,
  \<open>ray.get\<close> yields that copy.
\<close>

datatype 'a ObjectRef = ObjectRef 'a

definition ray_put :: "'a \<Rightarrow> 'a ObjectRef" where
  "ray_put x = ObjectRef x"

fun ray_get :: "'a ObjectRef \<Rightarrow> 'a" where
  "ray_get (ObjectRef x) = x"

text \<open>
  A worker process, by what \<open>hvd.init()\<close> assigns to it: \<open>hvd.rank()\<close> and
  \<open>hvd.local_rank()\<close>.
\<close>

record worker =
  hvd_rank :: nat
  hvd_local_rank :: nat

record CustomRayExecutor =
  workers :: "worker list"

text \<open>
  The driver's view of the cluster: the queue actors created and the tasks submitted so
  far (worker and arguments), in order.
\<close>

record 'a cluster =
  queue_actors :: "Queue list"
  tasks :: "(worker \<times> 'a) list"

text \<open>
  Modelled from the spec: the constructor of \<open>Queue\<close> (\<open>ray_lightning.util\<close>) creates a
  fresh queue actor with the given actor options.
\<close>

definition Queue_init :: "(string, nat) dict \<Rightarrow> 'a cluster \<Rightarrow> Queue \<times> 'a cluster" where
  "Queue_init opts c =
     (let q = \<lparr>actor_options = opts\<rparr> in (q, c\<lparr>queue_actors := queue_actors c @ [q]\<rparr>))"

text \<open>
  \<open>run_async\<close> submits \<open>fn(*args)\<close> to every worker of the executor, in the order of
  \<open>self.workers\<close>; the call runs in that worker's process.  A future is modelled by the
  outcome of its task.
\<close>

definition run_async ::
  "CustomRayExecutor \<Rightarrow> ('a \<Rightarrow> worker \<Rightarrow> 'f) \<Rightarrow> 'a \<Rightarrow> 'a cluster \<Rightarrow> 'f list \<times> 'a cluster" where
  "run_async self fn args c =
     (map (\<lambda>worker. fn args worker) (workers self),
      c\<lparr>tasks := tasks c @ map (\<lambda>worker. (worker, args)) (workers self)\<rparr>)"

text \<open>
  Modelled from the spec: \<open>process_results\<close> of \<open>ray_lightning.util\<close> is not among the
  sources.  It blocks until all dispatched tasks complete, draining the relay queue
  meanwhile, and yields the tasks' results in dispatch order; a single failing task fails
  the whole run (here with the first failure in dispatch order).  The relay traffic of
  the host training loop is outside this model, so there is nothing to drain.
\<close>

fun process_results :: "(error + 'a) list \<Rightarrow> Queue option \<Rightarrow> error + 'a list" where
  "process_results [] q = Inr []"
| "process_results (Inl e # futures) q = Inl e"
| "process_results (Inr x # futures) q =
     (case process_results futures q of
        Inl e \<Rightarrow> Inl e
      | Inr xs \<Rightarrow> Inr (x # xs))"

record ('sd, 'v) HorovodRayAccelerator =
  acc_trainer :: "('sd, 'v) trainer option"
  acc_executor :: "CustomRayExecutor option"
  nickname :: string
  num_hosts :: int
  num_slots :: int
  use_gpu :: bool

definition HorovodRayAccelerator_init ::
  "env \<Rightarrow> int \<Rightarrow> int \<Rightarrow> bool \<Rightarrow> error + ('sd, 'v) HorovodRayAccelerator" where
  "HorovodRayAccelerator_init e hosts slots gpu =
     (if \<not> HOROVOD_AVAILABLE e then
        Inl (RuntimeError (''Horovod is not installed. Please intall it '' @
                           ''(https://horovod.readthedocs.io/en/stable/'' @
                           ''install_include.html'' @
                           '') to use the HorovodRayAccelerator.''))
      else
        Inr \<lparr>acc_trainer = None, acc_executor = None, nickname = ''horovod_ray'',
             num_hosts = hosts, num_slots = slots, use_gpu = gpu\<rparr>)"

text \<open>
  \<open>host_train\<close> is the host framework's own \<open>setup\<close> and \<open>train\<close> of the parent class, run
  in the worker's process: it fails, or returns the results and leaves the worker's
  trainer updated.  A parameter.
\<close>

type_synonym ('sd, 'v, 'r) host_train =
  "worker \<Rightarrow> ('sd, 'v) trainer \<Rightarrow> error + ('r \<times> ('sd, 'v) trainer)"

definition train_remote ::
  "('sd, 'v, 'r) host_train \<Rightarrow> ('sd, 'v) trainer option ObjectRef \<Rightarrow> Queue option \<Rightarrow> worker
     \<Rightarrow> ('v, 'c) proc \<Rightarrow> (error + ('r \<times> 'sd \<times> string option) option) \<times> ('v, 'c) proc" where
  "train_remote host_train trainer_ref queue_arg w p =
     (let self_trainer = ray_get trainer_ref;
          p = (case queue_arg of
                 None \<Rightarrow> p
               | Some q \<Rightarrow> init_session (hvd_rank w) (Some q) p)
      in case self_trainer of
           None \<Rightarrow> (Inl AttributeError, p)
         | Some trainer \<Rightarrow>
             (let trainer = (if on_gpu trainer
                             then trainer\<lparr>root_gpu := Some (hvd_local_rank w)\<rparr>
                             else trainer)
              in case host_train w trainer of
                   Inl e \<Rightarrow> (Inl e, p)
                 | Inr (results, trainer) \<Rightarrow>
                     (if hvd_rank w \<noteq> 0 then (Inr None, p)
                      else
                        (let best_path =
                               (case checkpoint_callback trainer of
                                  None \<Rightarrow> None
                                | Some cb \<Rightarrow> best_model_path cb);
                             m = model trainer
                         in (Inr (Some (results, state_dict m, best_path)), p)))))"

text \<open>The state of a freshly started worker process.\<close>

definition fresh_proc :: "('v, 'c) proc" where
  "fresh_proc = \<lparr>session = None, relay = [], snapshots = []\<rparr>"

type_synonym ('sd, 'v) train_args = "('sd, 'v) trainer option ObjectRef \<times> Queue option"

definition train ::
  "env \<Rightarrow> ('sd, 'v, 'r) host_train \<Rightarrow> ('sd, 'v) HorovodRayAccelerator
     \<Rightarrow> ('sd, 'v) train_args cluster
     \<Rightarrow> (error + 'r) \<times> ('sd, 'v) HorovodRayAccelerator \<times> ('sd, 'v) train_args cluster" where
  "train e host_train self c =
     (let trainer = acc_trainer self;
          trainer_ref = ray_put (acc_trainer self);
          self = self\<lparr>acc_trainer := None\<rparr>;
          (queue_arg, c) =
            (if TUNE_INSTALLED e \<and> is_session_enabled e then
               (let (q, c) = Queue_init [(''num_cpus'', 0)] c in (Some q, c))
             else (None, c))
      in case acc_executor self of
           None \<Rightarrow> (Inl AttributeError, self, c)
         | Some executor \<Rightarrow>
             (let (result_futures, c) =
                    run_async executor
                      (\<lambda>(tr, q) w. fst (train_remote host_train tr q w
                                          (fresh_proc :: ('v, unit) proc)))
                      (trainer_ref, queue_arg) c
              in case process_results result_futures queue_arg of
                   Inl err \<Rightarrow> (Inl err, self, c)
                 | Inr results \<Rightarrow>
                     (case results of
                        [] \<Rightarrow> (Inl IndexError, self, c)
                      | None # rest \<Rightarrow> (Inl TypeError, self, c)
                      | Some (results, sd, best_path) # rest \<Rightarrow>
                          (let self = self\<lparr>acc_trainer := trainer\<rparr>
                           in case acc_trainer self of
                                None \<Rightarrow> (Inl AttributeError, self, c)
                              | Some t \<Rightarrow>
                                  (let t = t\<lparr>model := load_state_dict (model t) sd\<rparr>;
                                       t = (case checkpoint_callback t of
                                              None \<Rightarrow> t
                                            | Some cb \<Rightarrow>
                                                t\<lparr>checkpoint_callback :=
                                                    Some (cb\<lparr>best_model_path := best_path\<rparr>)\<rparr>)
                                   in (Inr results, self\<lparr>acc_trainer := Some t\<rparr>, c))))))"

section \<open>Example inputs\<close>

text \<open>
  Concrete inputs at which the theorems below are instantiated: a trainer that has logged
  two scalar metrics, worker processes of rank \<open>r\<close> whose session holds a queue, a host
  loop that sets new weights and a best checkpoint path, and an accelerator with two
  workers.
\<close>

definition example_queue :: Queue where
  "example_queue = \<lparr>actor_options = [(''num_cpus'', 0)]\<rparr>"

definition example_trainer :: "(string, int) trainer" where
  "example_trainer =
     \<lparr>model = \<lparr>weights = ''w0''\<rparr>, on_gpu = False, root_gpu = None,
      checkpoint_callback = Some \<lparr>best_model_path = Some []\<rparr>,
      running_sanity_check = False,
      callback_metrics = [(''val_loss'', Tensor [1]), (''val_acc'', Tensor [2])],
      global_step = 10\<rparr>"

definition example_proc :: "nat \<Rightarrow> (int, string) proc" where
  "example_proc r =
     \<lparr>session = Some \<lparr>rank = r, queue = Some example_queue\<rparr>, relay = [], snapshots = []\<rparr>"

definition example_dump :: "(string, int) trainer \<Rightarrow> string" where
  "example_dump t = ''snapshot-'' @ weights (model t)"

definition example_host :: "(string, int, (string, int) dict) host_train" where
  "example_host w t =
     Inr ([(''val_loss'', 1)],
          t\<lparr>model := \<lparr>weights = ''w1''\<rparr>,
            checkpoint_callback := Some \<lparr>best_model_path = Some ''best.ckpt''\<rparr>\<rparr>)"

definition example_workers :: "worker list" where
  "example_workers =
     [\<lparr>hvd_rank = 0, hvd_local_rank = 0\<rparr>, \<lparr>hvd_rank = 1, hvd_local_rank = 1\<rparr>]"

definition example_accelerator :: "(string, int) HorovodRayAccelerator" where
  "example_accelerator =
     \<lparr>acc_trainer = Some example_trainer,
      acc_executor = Some \<lparr>workers = example_workers\<rparr>,
      nickname = ''horovod_ray'', num_hosts = 1, num_slots = 2, use_gpu = False\<rparr>"

definition example_env :: "bool \<Rightarrow> env" where
  "example_env session_active =
     \<lparr>HOROVOD_AVAILABLE = True, TUNE_INSTALLED = True, tune_session = session_active\<rparr>"

definition example_cluster :: "(string, int) train_args cluster" where
  "example_cluster = \<lparr>queue_actors = [], tasks = []\<rparr>"

section \<open>Properties of tune.py\<close>

lemmas ex_defs = example_queue_def example_trainer_def example_proc_def example_dump_def
  example_host_def example_workers_def example_accelerator_def example_env_def
  example_cluster_def

subsection \<open>The report loops\<close>

text \<open>
  The comprehension over all callback metrics succeeds when every metric is a scalar, and
  on a dict (distinct keys) it yields exactly the converted metrics.  The accumulator is
  generalised for the induction.
\<close>

lemma report_all_ok:
  assumes "distinct (map fst cm)" and "\<forall>(k, t) \<in> set cm. \<exists>x. item t = Inr x"
  shows "\<exists>d. report_all acc cm = Inr d \<and>
           (\<forall>k x. map_of d k = Some x \<longleftrightarrow>
              (\<exists>t. map_of cm k = Some t \<and> item t = Inr x)
              \<or> (k \<notin> fst ` set cm \<and> map_of acc k = Some x))"
  using assms
proof (induction cm arbitrary: acc)
  case Nil
  then show ?case by simp
next
  case (Cons kv cm)
  obtain k t where kv: "kv = (k, t)" by (cases kv)
  from Cons.prems kv obtain x where x: "item t = Inr x" by auto
  from Cons.prems kv have fresh: "map_of cm k = None" and knot: "k \<notin> fst ` set cm"
    by (auto simp: map_of_eq_None_iff)
  from Cons.prems have rest: "distinct (map fst cm)" "\<forall>(k, t) \<in> set cm. \<exists>x. item t = Inr x"
    by simp_all
  from Cons.IH [OF rest, of "AList.update k x acc"]
  obtain d where d: "report_all (AList.update k x acc) cm = Inr d"
    and dm: "\<And>k' x'. map_of d k' = Some x' \<longleftrightarrow>
              (\<exists>t. map_of cm k' = Some t \<and> item t = Inr x')
              \<or> (k' \<notin> fst ` set cm \<and> map_of (AList.update k x acc) k' = Some x')"
    by blast
  have "report_all acc (kv # cm) = Inr d" using kv x d by simp
  moreover have "map_of d k' = Some x' \<longleftrightarrow>
              (\<exists>t. map_of (kv # cm) k' = Some t \<and> item t = Inr x')
              \<or> (k' \<notin> fst ` set (kv # cm) \<and> map_of acc k' = Some x')" for k' x'
  proof (cases "k' = k")
    case True
    then show ?thesis using dm [of k x'] fresh knot kv x by (auto simp: update_conv')
  next
    case False
    then show ?thesis using dm [of k' x'] kv by (auto simp: update_conv')
  qed
  ultimately show ?case by blast
qed

text \<open>
  The loop over a selection succeeds when every selected metric is present and a scalar;
  the resulting dict maps each visited key to the scalar of its metric.
\<close>

lemma report_selected_ok:
  assumes "\<forall>key \<in> set keys. \<exists>m t x. metric_name sel key = Inr m \<and> map_of cm m = Some t \<and> item t = Inr x"
  shows "\<exists>d. report_selected sel cm acc keys = Inr d \<and>
           (\<forall>k x. map_of d k = Some x \<longleftrightarrow>
              (k \<in> set keys \<and> (\<exists>m t. metric_name sel k = Inr m \<and> map_of cm m = Some t \<and> item t = Inr x))
              \<or> (k \<notin> set keys \<and> map_of acc k = Some x))"
  using assms
proof (induction keys arbitrary: acc)
  case Nil
  then show ?case by simp
next
  case (Cons key keys)
  from Cons.prems obtain m t x where
    m: "metric_name sel key = Inr m" and t: "map_of cm m = Some t" and x: "item t = Inr x"
    by auto
  from Cons.prems have rest:
    "\<forall>key \<in> set keys. \<exists>m t x. metric_name sel key = Inr m \<and> map_of cm m = Some t \<and> item t = Inr x"
    by simp
  from Cons.IH [OF rest, of "AList.update key x acc"]
  obtain d where d: "report_selected sel cm (AList.update key x acc) keys = Inr d"
    and dm: "\<And>k' x'. map_of d k' = Some x' \<longleftrightarrow>
              (k' \<in> set keys \<and> (\<exists>m t. metric_name sel k' = Inr m \<and> map_of cm m = Some t \<and> item t = Inr x'))
              \<or> (k' \<notin> set keys \<and> map_of (AList.update key x acc) k' = Some x')"
    by blast
  have "report_selected sel cm acc (key # keys) = Inr d"
    using m t x d by (simp add: getitem_def)
  moreover have "map_of d k' = Some x' \<longleftrightarrow>
              (k' \<in> set (key # keys) \<and> (\<exists>m t. metric_name sel k' = Inr m \<and> map_of cm m = Some t \<and> item t = Inr x'))
              \<or> (k' \<notin> set (key # keys) \<and> map_of acc k' = Some x')" for k' x'
  proof (cases "k' = key")
    case True
    then show ?thesis using dm [of key x'] m t x by (auto simp: update_conv')
  next
    case False
    then show ?thesis using dm [of k' x'] by (auto simp: update_conv')
  qed
  ultimately show ?case by blast
qed

text \<open>
  \<open>item\<close> raises nothing but \<open>ValueError\<close>; the loop over a selection raises when a
  selected metric is absent.
\<close>

lemma item_Inl: "item t = Inl e \<Longrightarrow> e = ValueError"
  by (cases t rule: item.cases) auto

lemma report_selected_missing:
  assumes "\<forall>key \<in> set keys. \<exists>m. metric_name sel key = Inr m"
    and "\<exists>key \<in> set keys. \<exists>m. metric_name sel key = Inr m \<and> map_of cm m = None"
  shows "\<exists>e. report_selected sel cm acc keys = Inl e \<and>
           (e = ValueError \<or> (\<exists>m. e = KeyError m \<and> map_of cm m = None))
         \<and> ((\<forall>(k, t) \<in> set cm. \<exists>x. item t = Inr x) \<longrightarrow> (\<exists>m. e = KeyError m \<and> map_of cm m = None))"
  using assms
proof (induction keys arbitrary: acc)
  case Nil
  then show ?case by simp
next
  case (Cons key keys)
  from Cons.prems(1) obtain m where m: "metric_name sel key = Inr m" by auto
  show ?case
  proof (cases "map_of cm m")
    case None
    then show ?thesis using m by (simp add: getitem_def)
  next
    case (Some t)
    have rest1: "\<forall>key \<in> set keys. \<exists>m. metric_name sel key = Inr m"
      using Cons.prems(1) by simp
    have rest2: "\<exists>key \<in> set keys. \<exists>m. metric_name sel key = Inr m \<and> map_of cm m = None"
      using Cons.prems(2) m Some by auto
    show ?thesis
    proof (cases "item t")
      case (Inl e)
      then have e: "e = ValueError" by (rule item_Inl)
      have "(t \<in> snd ` set cm)" using Some by (metis map_of_SomeD image_eqI snd_conv)
      then have "\<not> (\<forall>(k, t) \<in> set cm. \<exists>x. item t = Inr x)" using Inl by force
      then show ?thesis using m Some Inl e by (simp add: getitem_def)
    next
      case (Inr x)
      from Cons.IH [OF rest1 rest2, of "AList.update key x acc"]
      show ?thesis using m Some Inr by (simp add: getitem_def)
    qed
  qed
qed

text \<open>On rank 0 with a queue, a computed report dict is enqueued as one action.\<close>

lemma handle_enqueues:
  assumes "session p = Some s" "rank s = 0" "queue s = Some q"
    and "get_report_dict self trainer = Inr (Some d)"
  shows "TuneReportCallback_handle self trainer p = (Inr (), p\<lparr>relay := relay p @ [Report d]\<rparr>)"
  using assms by (simp add: TuneReportCallback_handle_def get_actor_rank_def put_queue_def)

subsection \<open>The metric reporter\<close>

text \<open>
  C3 (as amended).  When the metric reporter fires outside the sanity-check phase on the
  rank-0 worker, whose session holds a queue, and the metrics it reads exist and convert
  to scalars, it returns normally and enqueues exactly one relay action \<open>Report d\<close>:
  \<^item> with no selection, and likewise with an empty list or an empty dict as selection,
    \<open>d\<close> has every key of the trainer's callback metrics, each with its scalar;
  \<^item> with a non-empty list, \<open>d\<close> has exactly the listed keys, each with the scalar of
    the callback metric of the same name;
  \<^item> with a non-empty dict, \<open>d\<close> has exactly the dict's keys, each with the scalar of
    the callback metric named by the dict's value;
  \<^item> a single string is stored as the one-element list.
\<close>

theorem TuneReportCallback_handle_reports:
  fixes self :: TuneReportCallback and trainer :: "('sd, 'v) trainer" and p :: "('v, 'c) proc"
  assumes "session p = Some s" and "rank s = 0" and "queue s = Some q"
    and "\<not> running_sanity_check trainer"
  shows
    "(metrics self \<in> {MNone, MList [], MDict []} \<longrightarrow>
        distinct (map fst (callback_metrics trainer)) \<longrightarrow>
        (\<forall>(k, t) \<in> set (callback_metrics trainer). \<exists>x. item t = Inr x) \<longrightarrow>
        (\<exists>d. TuneReportCallback_handle self trainer p = (Inr (), p\<lparr>relay := relay p @ [Report d]\<rparr>)
           \<and> (\<forall>k x. map_of d k = Some x \<longleftrightarrow>
                 (\<exists>t. map_of (callback_metrics trainer) k = Some t \<and> item t = Inr x))))
   \<and> (\<forall>ks. metrics self = MList ks \<longrightarrow> ks \<noteq> [] \<longrightarrow>
        (\<forall>k \<in> set ks. \<exists>t x. map_of (callback_metrics trainer) k = Some t \<and> item t = Inr x) \<longrightarrow>
        (\<exists>d. TuneReportCallback_handle self trainer p = (Inr (), p\<lparr>relay := relay p @ [Report d]\<rparr>)
           \<and> (\<forall>k x. map_of d k = Some x \<longleftrightarrow>
                 k \<in> set ks \<and> (\<exists>t. map_of (callback_metrics trainer) k = Some t \<and> item t = Inr x))))
   \<and> (\<forall>kd. metrics self = MDict kd \<longrightarrow> kd \<noteq> [] \<longrightarrow>
        (\<forall>(k, m) \<in> set kd. \<exists>t x. map_of (callback_metrics trainer) m = Some t \<and> item t = Inr x) \<longrightarrow>
        (\<exists>d. TuneReportCallback_handle self trainer p = (Inr (), p\<lparr>relay := relay p @ [Report d]\<rparr>)
           \<and> (\<forall>k x. map_of d k = Some x \<longleftrightarrow>
                 (\<exists>m t. map_of kd k = Some m \<and> map_of (callback_metrics trainer) m = Some t
                    \<and> item t = Inr x))))
   \<and> TuneReportCallback_init (ArgStr name) on_a = TuneReportCallback_init (ArgList [name]) on_a"
proof (intro conjI allI impI)
  let ?cm = "callback_metrics trainer"
  note enq = handle_enqueues [OF assms(1-3)]
  {
    assume sel: "metrics self \<in> {MNone, MList [], MDict []}"
      and dist: "distinct (map fst ?cm)"
      and sc: "\<forall>(k, t) \<in> set ?cm. \<exists>x. item t = Inr x"
    from report_all_ok [OF dist sc, of "[]"]
    obtain d where d: "report_all [] ?cm = Inr d"
      and dm: "\<forall>k x. map_of d k = Some x \<longleftrightarrow> (\<exists>t. map_of ?cm k = Some t \<and> item t = Inr x)"
      by (auto simp: map_of_eq_None_iff [symmetric])
    have "\<not> truthy (metrics self)" using sel by auto
    then have "get_report_dict self trainer = Inr (Some d)"
      using assms(4) d by (simp add: get_report_dict_def)
    from enq [OF this] dm
    show "\<exists>d. TuneReportCallback_handle self trainer p = (Inr (), p\<lparr>relay := relay p @ [Report d]\<rparr>)
           \<and> (\<forall>k x. map_of d k = Some x \<longleftrightarrow> (\<exists>t. map_of ?cm k = Some t \<and> item t = Inr x))"
      by blast
  }
  {
    fix ks
    assume sel: "metrics self = MList ks" and ne: "ks \<noteq> []"
      and pres: "\<forall>k \<in> set ks. \<exists>t x. map_of ?cm k = Some t \<and> item t = Inr x"
    have pre: "\<forall>key \<in> set ks. \<exists>m t x. metric_name (MList ks) key = Inr m \<and> map_of ?cm m = Some t \<and> item t = Inr x"
      using pres by simp
    from report_selected_ok [OF pre, of "[]"]
    obtain d where d: "report_selected (MList ks) ?cm [] ks = Inr d"
      and dm: "\<forall>k x. map_of d k = Some x \<longleftrightarrow>
                 k \<in> set ks \<and> (\<exists>t. map_of ?cm k = Some t \<and> item t = Inr x)"
      by auto
    have "get_report_dict self trainer = Inr (Some d)"
      using assms(4) sel ne d by (simp add: get_report_dict_def)
    from enq [OF this] dm
    show "\<exists>d. TuneReportCallback_handle self trainer p = (Inr (), p\<lparr>relay := relay p @ [Report d]\<rparr>)
           \<and> (\<forall>k x. map_of d k = Some x \<longleftrightarrow>
                 k \<in> set ks \<and> (\<exists>t. map_of ?cm k = Some t \<and> item t = Inr x))"
      by blast
  }
  {
    fix kd
    assume sel: "metrics self = MDict kd" and ne: "kd \<noteq> []"
      and pres: "\<forall>(k, m) \<in> set kd. \<exists>t x. map_of ?cm m = Some t \<and> item t = Inr x"
    have pre: "\<forall>key \<in> set (map fst kd). \<exists>m t x. metric_name (MDict kd) key = Inr m
                 \<and> map_of ?cm m = Some t \<and> item t = Inr x"
    proof
      fix key assume "key \<in> set (map fst kd)"
      then obtain m where m: "map_of kd key = Some m"
        by (metis map_of_eq_None_iff not_Some_eq set_map)
      then have "(key, m) \<in> set kd" by (rule map_of_SomeD)
      with pres m show "\<exists>m t x. metric_name (MDict kd) key = Inr m
                 \<and> map_of ?cm m = Some t \<and> item t = Inr x"
        by (auto simp: getitem_def)
    qed
    from report_selected_ok [OF pre, of "[]"]
    obtain d where d: "report_selected (MDict kd) ?cm [] (map fst kd) = Inr d"
      and dm0: "\<forall>k x. map_of d k = Some x \<longleftrightarrow>
                 (k \<in> set (map fst kd) \<and> (\<exists>m t. metric_name (MDict kd) k = Inr m
                    \<and> map_of ?cm m = Some t \<and> item t = Inr x))"
      by auto
    have dm: "\<forall>k x. map_of d k = Some x \<longleftrightarrow>
                 (\<exists>m t. map_of kd k = Some m \<and> map_of ?cm m = Some t \<and> item t = Inr x)"
    proof (intro allI)
      fix k x
      show "map_of d k = Some x \<longleftrightarrow>
                 (\<exists>m t. map_of kd k = Some m \<and> map_of ?cm m = Some t \<and> item t = Inr x)"
      proof (cases "map_of kd k")
        case None
        then have "k \<notin> set (map fst kd)" by (simp add: map_of_eq_None_iff)
        then show ?thesis using dm0 None by simp
      next
        case (Some m)
        then have "k \<in> set (map fst kd)" by (metis map_of_SomeD image_eqI fst_conv set_map)
        then show ?thesis using dm0 Some by (simp add: getitem_def)
      qed
    qed
    have "get_report_dict self trainer = Inr (Some d)"
      using assms(4) sel ne d by (simp add: get_report_dict_def)
    from enq [OF this] dm
    show "\<exists>d. TuneReportCallback_handle self trainer p = (Inr (), p\<lparr>relay := relay p @ [Report d]\<rparr>)
           \<and> (\<forall>k x. map_of d k = Some x \<longleftrightarrow>
                 (\<exists>m t. map_of kd k = Some m \<and> map_of ?cm m = Some t \<and> item t = Inr x))"
      by blast
  }
  show "TuneReportCallback_init (ArgStr name) on_a = TuneReportCallback_init (ArgList [name]) on_a"
    by simp
qed

text \<open>
  The three selections at the example trainer: no selection reports both metrics, the
  list \<open>[val_acc]\<close> reports that metric alone, the dict \<open>{loss: val_loss}\<close> reports
  \<open>val_loss\<close> under the name \<open>loss\<close>.
\<close>

theorem TuneReportCallback_handle_reports_witness:
  "session (example_proc 0) = Some \<lparr>rank = 0, queue = Some example_queue\<rparr>
   \<and> \<not> running_sanity_check example_trainer
   \<and> (\<exists>d. TuneReportCallback_handle
              (TuneReportCallback_init ArgNone (OnStr ''validation_end''))
              example_trainer (example_proc 0)
            = (Inr (), (example_proc 0)\<lparr>relay := relay (example_proc 0) @ [Report d]\<rparr>)
          \<and> map_of d ''val_loss'' = Some 1 \<and> map_of d ''val_acc'' = Some 2)
   \<and> (\<exists>d. TuneReportCallback_handle
              (TuneReportCallback_init (ArgList [''val_acc'']) (OnStr ''validation_end''))
              example_trainer (example_proc 0)
            = (Inr (), (example_proc 0)\<lparr>relay := relay (example_proc 0) @ [Report d]\<rparr>)
          \<and> map_of d ''val_loss'' = None \<and> map_of d ''val_acc'' = Some 2)
   \<and> (\<exists>d. TuneReportCallback_handle
              (TuneReportCallback_init (ArgDict [(''loss'', ''val_loss'')]) (OnStr ''validation_end''))
              example_trainer (example_proc 0)
            = (Inr (), (example_proc 0)\<lparr>relay := relay (example_proc 0) @ [Report d]\<rparr>)
          \<and> map_of d ''loss'' = Some 1 \<and> map_of d ''val_loss'' = None)"
proof -
  let ?cm = "callback_metrics example_trainer"
  have h1: "session (example_proc 0) = Some \<lparr>rank = 0, queue = Some example_queue\<rparr>"
    by (simp add: example_proc_def)
  have h2: "rank \<lparr>rank = 0, queue = Some example_queue\<rparr> = 0" by simp
  have h3: "queue \<lparr>rank = 0, queue = Some example_queue\<rparr> = Some example_queue" by simp
  have h4: "\<not> running_sanity_check example_trainer" by (simp add: example_trainer_def)
  note t = TuneReportCallback_handle_reports [OF h1 h2 h3 h4]
  have cm: "?cm = [(''val_loss'', Tensor [1]), (''val_acc'', Tensor [2])]"
    by (simp add: example_trainer_def)
  have a: "\<exists>d. TuneReportCallback_handle
              (TuneReportCallback_init ArgNone (OnStr ''validation_end''))
              example_trainer (example_proc 0)
            = (Inr (), (example_proc 0)\<lparr>relay := relay (example_proc 0) @ [Report d]\<rparr>)
          \<and> map_of d ''val_loss'' = Some 1 \<and> map_of d ''val_acc'' = Some 2"
  proof -
    let ?cb = "TuneReportCallback_init ArgNone (OnStr ''validation_end'')"
    have s: "metrics ?cb \<in> {MNone, MList [], MDict []}" by simp
    have d: "distinct (map fst ?cm)" by (simp add: cm)
    have sc: "\<forall>(k, t) \<in> set ?cm. \<exists>x. item t = Inr x" by (simp add: cm)
    from t [where self = ?cb, THEN conjunct1, THEN mp, THEN mp, THEN mp, OF s d sc] obtain d where
      "TuneReportCallback_handle ?cb example_trainer (example_proc 0)
            = (Inr (), (example_proc 0)\<lparr>relay := relay (example_proc 0) @ [Report d]\<rparr>)"
      and dm: "\<forall>k x. map_of d k = Some x \<longleftrightarrow> (\<exists>t. map_of ?cm k = Some t \<and> item t = Inr x)"
      by blast
    moreover have "map_of d ''val_loss'' = Some 1" "map_of d ''val_acc'' = Some 2"
      using dm by (simp_all add: cm)
    ultimately show ?thesis by blast
  qed
  have b: "\<exists>d. TuneReportCallback_handle
              (TuneReportCallback_init (ArgList [''val_acc'']) (OnStr ''validation_end''))
              example_trainer (example_proc 0)
            = (Inr (), (example_proc 0)\<lparr>relay := relay (example_proc 0) @ [Report d]\<rparr>)
          \<and> map_of d ''val_loss'' = None \<and> map_of d ''val_acc'' = Some 2"
  proof -
    let ?cb = "TuneReportCallback_init (ArgList [''val_acc'']) (OnStr ''validation_end'')"
    have s: "metrics ?cb = MList [''val_acc'']" "[''val_acc''] \<noteq> []" by simp_all
    have pr: "\<forall>k \<in> set [''val_acc'']. \<exists>t x. map_of ?cm k = Some t \<and> item t = Inr x"
      by (simp add: cm)
    from t [where self = ?cb, THEN conjunct2, THEN conjunct1, THEN spec, THEN mp, THEN mp, THEN mp,
        OF s pr] obtain d where
      "TuneReportCallback_handle ?cb example_trainer (example_proc 0)
            = (Inr (), (example_proc 0)\<lparr>relay := relay (example_proc 0) @ [Report d]\<rparr>)"
      and dm: "\<forall>k x. map_of d k = Some x \<longleftrightarrow>
                 k \<in> set [''val_acc''] \<and> (\<exists>t. map_of ?cm k = Some t \<and> item t = Inr x)"
      by blast
    moreover have "map_of d ''val_acc'' = Some 2" using dm by (simp add: cm)
    moreover have "map_of d ''val_loss'' = None"
    proof (cases "map_of d ''val_loss''")
      case (Some x)
      then show ?thesis using dm by simp
    qed simp
    ultimately show ?thesis by blast
  qed
  have c: "\<exists>d. TuneReportCallback_handle
              (TuneReportCallback_init (ArgDict [(''loss'', ''val_loss'')]) (OnStr ''validation_end''))
              example_trainer (example_proc 0)
            = (Inr (), (example_proc 0)\<lparr>relay := relay (example_proc 0) @ [Report d]\<rparr>)
          \<and> map_of d ''loss'' = Some 1 \<and> map_of d ''val_loss'' = None"
  proof -
    let ?cb = "TuneReportCallback_init (ArgDict [(''loss'', ''val_loss'')]) (OnStr ''validation_end'')"
    have s: "metrics ?cb = MDict [(''loss'', ''val_loss'')]" "[(''loss'', ''val_loss'')] \<noteq> []"
      by simp_all
    have pr: "\<forall>(k, m) \<in> set [(''loss'', ''val_loss'')].
                \<exists>t x. map_of ?cm m = Some t \<and> item t = Inr x"
      by (simp add: cm)
    from t [where self = ?cb, THEN conjunct2, THEN conjunct2, THEN conjunct1, THEN spec,
        THEN mp, THEN mp, THEN mp, OF s pr] obtain d where
      "TuneReportCallback_handle ?cb example_trainer (example_proc 0)
            = (Inr (), (example_proc 0)\<lparr>relay := relay (example_proc 0) @ [Report d]\<rparr>)"
      and dm: "\<forall>k x. map_of d k = Some x \<longleftrightarrow>
                 (\<exists>m t. map_of [(''loss'', ''val_loss'')] k = Some m \<and> map_of ?cm m = Some t
                    \<and> item t = Inr x)"
      by blast
    moreover have "map_of d ''loss'' = Some 1" using dm by (simp add: cm)
    moreover have "map_of d ''val_loss'' = None"
    proof (cases "map_of d ''val_loss''")
      case (Some x)
      then show ?thesis using dm by simp
    qed simp
    ultimately show ?thesis by blast
  qed
  from h1 h4 a b c show ?thesis by blast
qed

text \<open>
  With the empty list as selection the reporter does not report "exactly the listed
  keys" (none): the empty list is false in \<open>if not self._metrics\<close>, and both callback
  metrics are reported.
\<close>

theorem TuneReportCallback_handle_reports_counterexample:
  "relay (snd (TuneReportCallback_handle
                 (TuneReportCallback_init (ArgList []) (OnStr ''validation_end''))
                 example_trainer (example_proc 0)))
     = [Report [(''val_loss'', 1), (''val_acc'', 2)]]
   \<and> relay (snd (TuneReportCallback_handle
                 (TuneReportCallback_init (ArgList []) (OnStr ''validation_end''))
                 example_trainer (example_proc 0)))
     \<noteq> [Report []]"
  by (simp add: ex_defs TuneReportCallback_handle_def get_actor_rank_def get_report_dict_def
      put_queue_def)

subsection \<open>get_tune_ddp_resources\<close>

text \<open>
  The ceiling of \<open>0.99 * n\<close> is no larger in magnitude than \<open>n\<close>, so once \<open>num_workers\<close>
  has been converted the conversion of the ceiling cannot overflow.
\<close>

lemma ceiling_99_bound:
  fixes n :: int
  shows "\<bar>\<lceil>(of_int n :: real) * (99 / 100)\<rceil>\<bar> \<le> \<bar>n\<bar>"
proof (cases "0 \<le> n")
  case True
  then have "(of_int n :: real) * (99 / 100) \<le> of_int n" and "0 \<le> (of_int n :: real) * (99 / 100)"
    by simp_all
  then have "\<lceil>(of_int n :: real) * (99 / 100)\<rceil> \<le> n" and "0 \<le> \<lceil>(of_int n :: real) * (99 / 100)\<rceil>"
    by (simp_all add: ceiling_le_iff)
  then show ?thesis by simp
next
  case False
  then have n: "n < 0" by simp
  then have "(of_int n :: real) \<le> (of_int n :: real) * (99 / 100)" and "(of_int n :: real) * (99 / 100) \<le> 0"
    by simp_all
  then have "n \<le> \<lceil>(of_int n :: real) * (99 / 100)\<rceil>" and "\<lceil>(of_int n :: real) * (99 / 100)\<rceil> \<le> 0"
    by (simp_all add: le_ceiling_iff ceiling_le_iff) 
  then show ?thesis using n by simp
qed

lemma get_tune_ddp_resources_cases:
  "get_tune_ddp_resources n cpus gpu =
     (if gpu \<and> 2 ^ 1024 - 2 ^ 970 \<le> \<bar>n\<bar> then Inl OverflowError else Inr None)"
proof (cases "gpu \<and> 2 ^ 1024 - 2 ^ 970 \<le> \<bar>n\<bar>")
  case True
  then show ?thesis by (simp add: get_tune_ddp_resources_def float_of_int_def)
next
  case False
  show ?thesis
  proof (cases gpu)
    case True
    with False have small: "\<not> 2 ^ 1024 - 2 ^ 970 \<le> \<bar>n\<bar>" by simp
    have "\<bar>\<lceil>(of_int n :: real) * (99 / 100)\<rceil>\<bar> \<le> \<bar>n\<bar>" by (rule ceiling_99_bound)
    with small have c: "\<not> 2 ^ 1024 - 2 ^ 970 \<le> \<bar>\<lceil>(of_int n :: real) * (99 / 100)\<rceil>\<bar>" by linarith
    have f1: "float_of_int n = Inr (of_int n)" using small by (simp only: float_of_int_def if_False)
    have f2: "float_of_int \<lceil>(of_int n :: real) * (99 / 100)\<rceil>
                = Inr (of_int \<lceil>(of_int n :: real) * (99 / 100)\<rceil>)"
      using c by (simp only: float_of_int_def if_False)
    show ?thesis using True small
      by (simp only: get_tune_ddp_resources_def Let_def f1 f2 sum.case if_True if_False simp_thms)
  next
    case False
    then show ?thesis by (simp add: get_tune_ddp_resources_def)
  qed
qed

text \<open>
  C4 (as amended).  For every \<open>num_workers\<close>, \<open>cpus_per_worker\<close> and \<open>use_gpu\<close>, a call
  of \<open>get_tune_ddp_resources\<close> that completes returns \<open>None\<close>, never the resources
  dictionary it builds: the body has no \<open>return\<close> statement.  The call completes when
  \<open>use_gpu\<close> is false, and when \<open>use_gpu\<close> is true and \<open>num_workers\<close> converts to a
  float, that is \<open>\<bar>num_workers\<bar> < 2^1024 - 2^970\<close>; for \<open>use_gpu\<close> true and a larger
  \<open>num_workers\<close> the product \<open>num_workers * 0.99\<close> raises \<open>OverflowError\<close>.
\<close>

theorem get_tune_ddp_resources_None_or_overflow:
  "get_tune_ddp_resources n cpus gpu =
     (if gpu \<and> 2 ^ 1024 - 2 ^ 970 \<le> \<bar>n\<bar> then Inl OverflowError else Inr None)"
  by (rule get_tune_ddp_resources_cases)

theorem get_tune_ddp_resources_None_or_overflow_witness:
  "get_tune_ddp_resources 2 1 True = Inr None
   \<and> get_tune_ddp_resources (2 ^ 1024) 4 False = Inr None"
  using get_tune_ddp_resources_None_or_overflow [of 2 1 True]
    get_tune_ddp_resources_None_or_overflow [of "2 ^ 1024" 4 False]
  by simp

text \<open>
  With \<open>use_gpu\<close> true and \<open>num_workers = 2^1024\<close>, an int that is at least 1, the call
  does not return \<open>None\<close>: it raises \<open>OverflowError\<close>.
\<close>

theorem get_tune_ddp_resources_counterexample:
  "(1 :: int) \<le> 2 ^ 1024 \<and> (1 :: int) \<le> 1
   \<and> get_tune_ddp_resources (2 ^ 1024) 1 True = Inl OverflowError
   \<and> get_tune_ddp_resources (2 ^ 1024) 1 True \<noteq> Inr None"
proof -
  have "(2 :: int) ^ 1024 - 2 ^ 970 \<le> \<bar>2 ^ 1024\<bar>" by simp
  then have "get_tune_ddp_resources (2 ^ 1024) 1 True = Inl OverflowError"
    by (simp only: get_tune_ddp_resources_cases simp_thms if_True)
  moreover have "(1 :: int) \<le> 2 ^ 1024" by simp
  ultimately show ?thesis by simp
qed

subsection \<open>Missing metrics\<close>

text \<open>
  On rank 0 outside the sanity check, a selected metric that is absent makes the firing
  raise, with the process state unchanged.
\<close>

lemma report_handle_missing_rank0:
  fixes self :: TuneReportCallback and trainer :: "('sd, 'v) trainer" and p :: "('v, 'c) proc"
  assumes "session p = Some s" and "rank s = 0"
    and "\<not> running_sanity_check trainer"
    and "(\<exists>ks k. metrics self = MList ks \<and> k \<in> set ks \<and> map_of (callback_metrics trainer) k = None)
       \<or> (\<exists>kd k m. metrics self = MDict kd \<and> map_of kd k = Some m
             \<and> map_of (callback_metrics trainer) m = None)"
  shows "\<exists>e. TuneReportCallback_handle self trainer p = (Inl e, p)
           \<and> (e = ValueError \<or> (\<exists>m. e = KeyError m \<and> map_of (callback_metrics trainer) m = None))
           \<and> ((\<forall>(k, t) \<in> set (callback_metrics trainer). \<exists>x. item t = Inr x)
                \<longrightarrow> (\<exists>m. e = KeyError m \<and> map_of (callback_metrics trainer) m = None))"
proof -
  let ?cm = "callback_metrics trainer"
  let ?sel = "metrics self"
  have tr: "truthy ?sel" using assms(4) by auto
  have tot: "\<forall>key \<in> set (iter_keys ?sel). \<exists>m. metric_name ?sel key = Inr m"
  proof (cases ?sel)
    case (MDict kd)
    then show ?thesis
      by (auto simp: getitem_def weak_map_of_SomeI split: option.splits)
  qed simp_all
  have mis: "\<exists>key \<in> set (iter_keys ?sel). \<exists>m. metric_name ?sel key = Inr m \<and> map_of ?cm m = None"
    using assms(4)
  proof (elim disjE exE conjE)
    fix ks k assume "?sel = MList ks" "k \<in> set ks" "map_of ?cm k = None"
    then show ?thesis by auto
  next
    fix kd k m assume a: "?sel = MDict kd" "map_of kd k = Some m" "map_of ?cm m = None"
    then have "k \<in> set (map fst kd)" by (metis map_of_SomeD image_eqI fst_conv set_map)
    then have "k \<in> set (iter_keys ?sel)" using a by simp
    moreover have "metric_name ?sel k = Inr m" using a by (simp add: getitem_def)
    ultimately show ?thesis using a(3) by blast
  qed
  from report_selected_missing [OF tot mis, of "[]"]
  obtain e where e: "report_selected ?sel ?cm [] (iter_keys ?sel) = Inl e"
    and k: "e = ValueError \<or> (\<exists>m. e = KeyError m \<and> map_of ?cm m = None)"
       "(\<forall>(k, t) \<in> set ?cm. \<exists>x. item t = Inr x) \<longrightarrow> (\<exists>m. e = KeyError m \<and> map_of ?cm m = None)"
    by blast
  have "TuneReportCallback_handle self trainer p = (Inl e, p)"
    using assms(1-3) tr e
    by (simp add: TuneReportCallback_handle_def get_actor_rank_def get_report_dict_def)
  then show ?thesis using k by blast
qed

text \<open>
  C5 (as amended).  In a worker process whose session is initialised:
  \<^item> on rank 0 outside the sanity-check phase, when a metric requested by the list
    selection (an element) or by the dict selection (a value) is not in the trainer's
    callback metrics, the firing raises at once and leaves the process state, hence the
    relay queue, unchanged: nothing is skipped silently and no partial mapping is
    enqueued.  The exception is the lookup failure \<open>KeyError\<close> of an absent metric, or
    the conversion error of a selected non-scalar metric visited before it; it is the
    lookup failure whenever all callback metrics convert to scalars;
  \<^item> on any other rank, and during the sanity check, the firing returns normally and
    leaves the process state unchanged, whatever the selection and the callback metrics:
    no metric is looked up and nothing is raised.
\<close>

theorem report_handle_missing_metric_raises:
  fixes self :: TuneReportCallback and trainer :: "('sd, 'v) trainer" and p :: "('v, 'c) proc"
  assumes "session p = Some s"
  shows "(rank s = 0 \<longrightarrow> \<not> running_sanity_check trainer \<longrightarrow>
            ((\<exists>ks k. metrics self = MList ks \<and> k \<in> set ks
                 \<and> map_of (callback_metrics trainer) k = None)
             \<or> (\<exists>kd k m. metrics self = MDict kd \<and> map_of kd k = Some m
                   \<and> map_of (callback_metrics trainer) m = None)) \<longrightarrow>
            (\<exists>e. TuneReportCallback_handle self trainer p = (Inl e, p)
               \<and> (e = ValueError
                    \<or> (\<exists>m. e = KeyError m \<and> map_of (callback_metrics trainer) m = None))
               \<and> ((\<forall>(k, t) \<in> set (callback_metrics trainer). \<exists>x. item t = Inr x)
                    \<longrightarrow> (\<exists>m. e = KeyError m \<and> map_of (callback_metrics trainer) m = None))))
       \<and> (rank s \<noteq> 0 \<or> running_sanity_check trainer \<longrightarrow>
            TuneReportCallback_handle self trainer p = (Inr (), p))"
proof (intro conjI impI)
  assume "rank s = 0" and "\<not> running_sanity_check trainer"
    and "(\<exists>ks k. metrics self = MList ks \<and> k \<in> set ks
                 \<and> map_of (callback_metrics trainer) k = None)
             \<or> (\<exists>kd k m. metrics self = MDict kd \<and> map_of kd k = Some m
                   \<and> map_of (callback_metrics trainer) m = None)"
  with assms show "\<exists>e. TuneReportCallback_handle self trainer p = (Inl e, p)
               \<and> (e = ValueError
                    \<or> (\<exists>m. e = KeyError m \<and> map_of (callback_metrics trainer) m = None))
               \<and> ((\<forall>(k, t) \<in> set (callback_metrics trainer). \<exists>x. item t = Inr x)
                    \<longrightarrow> (\<exists>m. e = KeyError m \<and> map_of (callback_metrics trainer) m = None))"
    by (rule report_handle_missing_rank0)
next
  assume "rank s \<noteq> 0 \<or> running_sanity_check trainer"
  then show "TuneReportCallback_handle self trainer p = (Inr (), p)"
  proof
    assume "rank s \<noteq> 0"
    then show ?thesis
      using assms by (simp add: TuneReportCallback_handle_def get_actor_rank_def)
  next
    assume "running_sanity_check trainer"
    then show ?thesis
      using assms
      by (simp add: TuneReportCallback_handle_def get_actor_rank_def get_report_dict_def)
  qed
qed

text \<open>
  At the example trainer the list \<open>[val_loss, val_f1]\<close> raises \<open>KeyError val_f1\<close> on
  rank 0, after \<open>val_loss\<close> was read, and enqueues nothing; on rank 2, and on rank 0
  during the sanity check, the same firing returns normally.
\<close>

theorem report_handle_missing_metric_raises_witness:
  "session (example_proc 0) = Some \<lparr>rank = 0, queue = Some example_queue\<rparr>
   \<and> session (example_proc 2) = Some \<lparr>rank = 2, queue = Some example_queue\<rparr>
   \<and> \<not> running_sanity_check example_trainer
   \<and> running_sanity_check (example_trainer\<lparr>running_sanity_check := True\<rparr>)
   \<and> metrics (TuneReportCallback_init (ArgList [''val_loss'', ''val_f1'']) (OnStr ''validation_end''))
       = MList [''val_loss'', ''val_f1'']
   \<and> map_of (callback_metrics example_trainer) ''val_f1'' = None
   \<and> TuneReportCallback_handle
        (TuneReportCallback_init (ArgList [''val_loss'', ''val_f1'']) (OnStr ''validation_end''))
        example_trainer (example_proc 0)
       = (Inl (KeyError ''val_f1''), example_proc 0)
   \<and> TuneReportCallback_handle
        (TuneReportCallback_init (ArgList [''val_loss'', ''val_f1'']) (OnStr ''validation_end''))
        example_trainer (example_proc 2)
       = (Inr (), example_proc 2)
   \<and> TuneReportCallback_handle
        (TuneReportCallback_init (ArgList [''val_loss'', ''val_f1'']) (OnStr ''validation_end''))
        (example_trainer\<lparr>running_sanity_check := True\<rparr>) (example_proc 0)
       = (Inr (), example_proc 0)"
proof -
  let ?cb = "TuneReportCallback_init (ArgList [''val_loss'', ''val_f1'']) (OnStr ''validation_end'')"
  let ?s0 = "\<lparr>rank = 0, queue = Some example_queue\<rparr>"
  let ?s2 = "\<lparr>rank = 2, queue = Some example_queue\<rparr>"
  have h0: "session (example_proc 0) = Some ?s0" by (simp add: example_proc_def)
  have h2: "session (example_proc 2) = Some ?s2" by (simp add: example_proc_def)
  have r0: "rank ?s0 = 0" by simp
  have r2: "rank ?s2 \<noteq> 0 \<or> running_sanity_check example_trainer" by simp
  have ns: "\<not> running_sanity_check example_trainer" by (simp add: example_trainer_def)
  have sa: "rank ?s0 \<noteq> 0 \<or> running_sanity_check (example_trainer\<lparr>running_sanity_check := True\<rparr>)"
    by simp
  have sa': "running_sanity_check (example_trainer\<lparr>running_sanity_check := True\<rparr>)" by simp
  have m: "metrics ?cb = MList [''val_loss'', ''val_f1'']" by simp
  have n: "map_of (callback_metrics example_trainer) ''val_f1'' = None"
    by (simp add: example_trainer_def)
  have mis: "(\<exists>ks k. metrics ?cb = MList ks \<and> k \<in> set ks
               \<and> map_of (callback_metrics example_trainer) k = None)
       \<or> (\<exists>kd k m. metrics ?cb = MDict kd \<and> map_of kd k = Some m
             \<and> map_of (callback_metrics example_trainer) m = None)"
    using m n by auto
  have sc: "\<forall>(k, t) \<in> set (callback_metrics example_trainer). \<exists>x. item t = Inr x"
    by (simp add: example_trainer_def)
  from report_handle_missing_metric_raises [OF h0, where self = ?cb and trainer = example_trainer,
      THEN conjunct1, THEN mp, THEN mp, THEN mp, OF r0 ns mis] sc
  obtain mm where a0: "TuneReportCallback_handle ?cb example_trainer (example_proc 0)
                       = (Inl (KeyError mm), example_proc 0)"
    and mm: "map_of (callback_metrics example_trainer) mm = None"
    by blast
  have v: "TuneReportCallback_handle ?cb example_trainer (example_proc 0)
          = (Inl (KeyError ''val_f1''), example_proc 0)"
    by (simp add: ex_defs TuneReportCallback_handle_def get_actor_rank_def get_report_dict_def
        getitem_def)
  have a: "TuneReportCallback_handle ?cb example_trainer (example_proc 0)
          = (Inl (KeyError ''val_f1''), example_proc 0)"
    using a0 v by simp
  have b: "TuneReportCallback_handle ?cb example_trainer (example_proc 2) = (Inr (), example_proc 2)"
    using report_handle_missing_metric_raises [OF h2, where self = ?cb and trainer = example_trainer,
        THEN conjunct2, THEN mp, OF r2] .
  have c: "TuneReportCallback_handle ?cb (example_trainer\<lparr>running_sanity_check := True\<rparr>)
             (example_proc 0) = (Inr (), example_proc 0)"
    using report_handle_missing_metric_raises [OF h0, where self = ?cb
        and trainer = "example_trainer\<lparr>running_sanity_check := True\<rparr>",
        THEN conjunct2, THEN mp, OF sa] .
  from h0 h2 ns sa' m n a b c show ?thesis by blast
qed

text \<open>
  On a worker of rank 1 the same missing metric raises nothing: the rank test comes
  first and the firing returns normally.
\<close>

theorem report_handle_missing_metric_counterexample:
  "map_of (callback_metrics example_trainer) ''val_f1'' = None
   \<and> TuneReportCallback_handle
        (TuneReportCallback_init (ArgList [''val_f1'']) (OnStr ''validation_end''))
        example_trainer (example_proc 1)
       = (Inr (), example_proc 1)"
  by (simp add: ex_defs TuneReportCallback_handle_def get_actor_rank_def)

subsection \<open>The sanity-check phase\<close>

text \<open>
  C7.  A firing of the metric reporter or of the checkpoint reporter while the trainer
  runs its sanity check enqueues nothing: the relay queue is unchanged, for every
  process state (any rank, with or without a session).
\<close>

theorem sanity_check_enqueues_nothing:
  fixes rcb :: TuneReportCallback and ccb :: TuneCheckpointCallback
    and trainer :: "('sd, 'v) trainer" and p :: "('v, 'c) proc"
  assumes "running_sanity_check trainer"
  shows "relay (snd (TuneReportCallback_handle rcb trainer p)) = relay p
       \<and> relay (snd (TuneCheckpointCallback_handle dump_checkpoint ccb trainer p)) = relay p"
  using assms
  by (auto simp: TuneReportCallback_handle_def TuneCheckpointCallback_handle_def
      get_report_dict_def split: sum.splits)

theorem sanity_check_enqueues_nothing_witness:
  "running_sanity_check (example_trainer\<lparr>running_sanity_check := True\<rparr>)
   \<and> relay (snd (TuneReportCallback_handle
                   (TuneReportCallback_init ArgNone (OnStr ''validation_end''))
                   (example_trainer\<lparr>running_sanity_check := True\<rparr>) (example_proc 0))) = []
   \<and> relay (snd (TuneCheckpointCallback_handle example_dump
                   (TuneCheckpointCallback_init ''checkpoint'' (OnStr ''validation_end''))
                   (example_trainer\<lparr>running_sanity_check := True\<rparr>) (example_proc 0))) = []"
proof -
  have h: "running_sanity_check (example_trainer\<lparr>running_sanity_check := True\<rparr>)" by simp
  have r: "relay (example_proc 0) = []" by (simp add: example_proc_def)
  show ?thesis
    using h sanity_check_enqueues_nothing [OF h,
        of "TuneReportCallback_init ArgNone (OnStr ''validation_end'')" "example_proc 0"
           example_dump "TuneCheckpointCallback_init ''checkpoint'' (OnStr ''validation_end'')"]
    by (simp only: r)
qed

subsection \<open>The checkpoint reporter\<close>

text \<open>
  C8.  On every firing of the checkpoint reporter outside the sanity-check phase the
  checkpoint snapshot is computed in the firing process, whatever its rank (and even
  without a session), and the action that writes the checkpoint file is enqueued exactly
  when the process has rank 0 (and its session holds a queue); otherwise the relay queue
  is unchanged.
\<close>

theorem checkpoint_snapshot_all_ranks_write_rank0:
  fixes self :: TuneCheckpointCallback and trainer :: "('sd, 'v) trainer" and p :: "('v, 'c) proc"
  assumes "\<not> running_sanity_check trainer"
  shows "snapshots (snd (TuneCheckpointCallback_handle dump_checkpoint self trainer p))
           = snapshots p @ [dump_checkpoint trainer]
       \<and> relay (snd (TuneCheckpointCallback_handle dump_checkpoint self trainer p))
           = (if \<exists>s q. session p = Some s \<and> rank s = 0 \<and> queue s = Some q
              then relay p @ [CreateCheckpoint (dump_checkpoint trainer) (global_step trainer)
                                (filename self)]
              else relay p)"
  using assms
  by (auto simp: TuneCheckpointCallback_handle_def get_actor_rank_def put_queue_def Let_def
      split: option.splits)

theorem checkpoint_snapshot_all_ranks_write_rank0_witness:
  "\<not> running_sanity_check example_trainer
   \<and> snapshots (snd (TuneCheckpointCallback_handle example_dump
                   (TuneCheckpointCallback_init ''checkpoint'' (OnStr ''validation_end''))
                   example_trainer (example_proc 0))) = [''snapshot-w0'']
   \<and> relay (snd (TuneCheckpointCallback_handle example_dump
                   (TuneCheckpointCallback_init ''checkpoint'' (OnStr ''validation_end''))
                   example_trainer (example_proc 0)))
       = [CreateCheckpoint ''snapshot-w0'' 10 ''checkpoint'']
   \<and> snapshots (snd (TuneCheckpointCallback_handle example_dump
                   (TuneCheckpointCallback_init ''checkpoint'' (OnStr ''validation_end''))
                   example_trainer (example_proc 1))) = [''snapshot-w0'']
   \<and> relay (snd (TuneCheckpointCallback_handle example_dump
                   (TuneCheckpointCallback_init ''checkpoint'' (OnStr ''validation_end''))
                   example_trainer (example_proc 1))) = []"
proof -
  have h: "\<not> running_sanity_check example_trainer" by (simp add: example_trainer_def)
  note t = checkpoint_snapshot_all_ranks_write_rank0 [OF h, of example_dump
      "TuneCheckpointCallback_init ''checkpoint'' (OnStr ''validation_end'')"]
  show ?thesis
    using h t [of "example_proc 0"] t [of "example_proc 1"]
    by (simp add: ex_defs TuneCheckpointCallback_init_def)
qed

subsection \<open>The combined reporter\<close>

text \<open>During the sanity check the metric reporter has no report dict.\<close>

lemma get_report_dict_sanity:
  "running_sanity_check trainer \<Longrightarrow> get_report_dict self trainer = Inr None"
  by (simp add: get_report_dict_def)

text \<open>
  C9.  The combined reporter runs the checkpoint reporter's handler and then the metric
  reporter's, both under the combined callback's own trigger: for every event and every
  process state, what a firing appends to the relay queue is nothing, or the
  checkpoint-write action alone, or the checkpoint-write action followed by one
  metric-report action; on rank 0 with a queue, outside the sanity check and at a
  triggering event, the checkpoint-write action is enqueued first and the report of the
  same firing directly after it; at any other event nothing happens at all.  Both inner
  callbacks are constructed with the trigger list of the combined callback.
\<close>

theorem combined_checkpoint_before_report:
  fixes self :: TuneReportCheckpointCallback and trainer :: "('sd, 'v) trainer"
    and p :: "('v, 'c) proc"
  shows "(\<exists>new. relay (snd (TuneCallback_hook event
                               (TuneReportCheckpointCallback_handle dump_checkpoint) self trainer p))
                 = relay p @ new
             \<and> (new = []
                \<or> new = [CreateCheckpoint (dump_checkpoint trainer) (global_step trainer)
                           (filename (checkpoint_cb self))]
                \<or> (\<exists>d. new = [CreateCheckpoint (dump_checkpoint trainer) (global_step trainer)
                                 (filename (checkpoint_cb self)), Report d])))
       \<and> (event \<in> set (on self) \<longrightarrow> session p = Some s \<longrightarrow> rank s = 0 \<longrightarrow> queue s = Some q
            \<longrightarrow> \<not> running_sanity_check trainer \<longrightarrow>
            relay (snd (TuneCallback_hook event
                          (TuneReportCheckpointCallback_handle dump_checkpoint) self trainer p))
              = relay p @ CreateCheckpoint (dump_checkpoint trainer) (global_step trainer)
                            (filename (checkpoint_cb self))
                  # (case get_report_dict (report_cb self) trainer of
                       Inr (Some d) \<Rightarrow> [Report d]
                     | _ \<Rightarrow> []))
       \<and> (event \<notin> set (on self) \<longrightarrow>
            TuneCallback_hook event (TuneReportCheckpointCallback_handle dump_checkpoint)
              self trainer p = (Inr (), p))
       \<and> on (checkpoint_cb (TuneReportCheckpointCallback_init m fname on_a))
           = on (TuneReportCheckpointCallback_init m fname on_a)
       \<and> on (report_cb (TuneReportCheckpointCallback_init m fname on_a))
           = on (TuneReportCheckpointCallback_init m fname on_a)"
proof (intro conjI impI)
  let ?C = "CreateCheckpoint (dump_checkpoint trainer) (global_step trainer)
              (filename (checkpoint_cb self))"
  let ?H = "TuneCallback_hook event (TuneReportCheckpointCallback_handle dump_checkpoint)
              self trainer p"
  show "\<exists>new. relay (snd ?H) = relay p @ new
             \<and> (new = [] \<or> new = [?C] \<or> (\<exists>d. new = [?C, Report d]))"
    by (auto simp: TuneCallback_hook_def TuneReportCheckpointCallback_handle_def
        TuneCheckpointCallback_handle_def TuneReportCallback_handle_def
        get_actor_rank_def put_queue_def Let_def get_report_dict_sanity
        split: option.splits sum.splits)
  show "on (checkpoint_cb (TuneReportCheckpointCallback_init m fname on_a))
           = on (TuneReportCheckpointCallback_init m fname on_a)"
    by (simp add: TuneReportCheckpointCallback_init_def TuneCheckpointCallback_init_def)
  show "on (report_cb (TuneReportCheckpointCallback_init m fname on_a))
           = on (TuneReportCheckpointCallback_init m fname on_a)"
    by (cases m) (simp_all add: TuneReportCheckpointCallback_init_def)
next
  assume "event \<notin> set (on self)"
  then show "TuneCallback_hook event (TuneReportCheckpointCallback_handle dump_checkpoint)
              self trainer p = (Inr (), p)"
    by (simp add: TuneCallback_hook_def)
next
  assume "event \<in> set (on self)" "session p = Some s" "rank s = 0" "queue s = Some q"
    "\<not> running_sanity_check trainer"
  then show "relay (snd (TuneCallback_hook event
                          (TuneReportCheckpointCallback_handle dump_checkpoint) self trainer p))
              = relay p @ CreateCheckpoint (dump_checkpoint trainer) (global_step trainer)
                            (filename (checkpoint_cb self))
                  # (case get_report_dict (report_cb self) trainer of
                       Inr (Some d) \<Rightarrow> [Report d]
                     | _ \<Rightarrow> [])"
    by (auto simp: TuneCallback_hook_def TuneReportCheckpointCallback_handle_def
        TuneCheckpointCallback_handle_def TuneReportCallback_handle_def
        get_actor_rank_def put_queue_def Let_def
        split: option.splits sum.splits)
qed

theorem combined_checkpoint_before_report_witness:
  "''validation_end'' \<in> set (on (TuneReportCheckpointCallback_init
        (ArgDict [(''loss'', ''val_loss'')]) ''checkpoint'' (OnStr ''validation_end'')))
   \<and> session (example_proc 0) = Some \<lparr>rank = 0, queue = Some example_queue\<rparr>
   \<and> \<not> running_sanity_check example_trainer
   \<and> ''train_end'' \<notin> set (on (TuneReportCheckpointCallback_init
        (ArgDict [(''loss'', ''val_loss'')]) ''checkpoint'' (OnStr ''validation_end'')))
   \<and> relay (snd (TuneCallback_hook ''validation_end''
                   (TuneReportCheckpointCallback_handle example_dump)
                   (TuneReportCheckpointCallback_init
                      (ArgDict [(''loss'', ''val_loss'')]) ''checkpoint'' (OnStr ''validation_end''))
                   example_trainer (example_proc 0)))
       = [CreateCheckpoint ''snapshot-w0'' 10 ''checkpoint'', Report [(''loss'', 1)]]
   \<and> TuneCallback_hook ''train_end''
         (TuneReportCheckpointCallback_handle example_dump)
         (TuneReportCheckpointCallback_init
            (ArgDict [(''loss'', ''val_loss'')]) ''checkpoint'' (OnStr ''validation_end''))
         example_trainer (example_proc 0)
       = (Inr (), example_proc 0)"
proof -
  let ?cb = "TuneReportCheckpointCallback_init
        (ArgDict [(''loss'', ''val_loss'')]) ''checkpoint'' (OnStr ''validation_end'')"
  have h0: "''validation_end'' \<in> set (on ?cb)"
    by (simp add: TuneReportCheckpointCallback_init_def)
  have h1: "session (example_proc 0) = Some \<lparr>rank = 0, queue = Some example_queue\<rparr>"
    by (simp add: example_proc_def)
  have h2: "rank \<lparr>rank = 0, queue = Some example_queue\<rparr> = 0" by simp
  have h3: "queue \<lparr>rank = 0, queue = Some example_queue\<rparr> = Some example_queue" by simp
  have h4: "\<not> running_sanity_check example_trainer" by (simp add: example_trainer_def)
  have h5: "''train_end'' \<notin> set (on ?cb)"
    by (simp add: TuneReportCheckpointCallback_init_def)
  have g: "get_report_dict (report_cb ?cb) example_trainer = Inr (Some [(''loss'', 1)])"
    by (simp add: TuneReportCheckpointCallback_init_def get_report_dict_def example_trainer_def
        getitem_def)
  have r: "relay (example_proc 0) = []" by (simp add: example_proc_def)
  have f: "filename (checkpoint_cb ?cb) = ''checkpoint''"
    by (simp add: TuneReportCheckpointCallback_init_def TuneCheckpointCallback_init_def)
  have d: "example_dump example_trainer = ''snapshot-w0''" "global_step example_trainer = 10"
    by (simp_all add: example_dump_def example_trainer_def)
  note t = combined_checkpoint_before_report [where self = ?cb and trainer = example_trainer
      and p = "example_proc 0" and dump_checkpoint = example_dump
      and s = "\<lparr>rank = 0, queue = Some example_queue\<rparr>" and q = example_queue]
  have a: "relay (snd (TuneCallback_hook ''validation_end''
                   (TuneReportCheckpointCallback_handle example_dump) ?cb
                   example_trainer (example_proc 0)))
       = [CreateCheckpoint ''snapshot-w0'' 10 ''checkpoint'', Report [(''loss'', 1)]]"
  proof -
    from t [where event = "''validation_end''", THEN conjunct2, THEN conjunct1] h0 h1 h2 h3 h4
    have "relay (snd (TuneCallback_hook ''validation_end''
                   (TuneReportCheckpointCallback_handle example_dump) ?cb
                   example_trainer (example_proc 0)))
       = relay (example_proc 0) @ CreateCheckpoint (example_dump example_trainer)
            (global_step example_trainer) (filename (checkpoint_cb ?cb))
           # (case get_report_dict (report_cb ?cb) example_trainer of
                Inr (Some d) \<Rightarrow> [Report d]
              | _ \<Rightarrow> [])"
      by blast
    then show ?thesis by (simp add: g r f d)
  qed
  have b: "TuneCallback_hook ''train_end''
         (TuneReportCheckpointCallback_handle example_dump) ?cb
         example_trainer (example_proc 0) = (Inr (), example_proc 0)"
    using t [where event = "''train_end''", THEN conjunct2, THEN conjunct2, THEN conjunct1] h5
    by blast
  from h0 h1 h4 h5 a b show ?thesis by blast
qed

section \<open>Properties of ray_horovod.py\<close>

text \<open>A successful \<open>process_results\<close> returns the value of every future, in order.\<close>

lemma process_results_InrD: "process_results fs q = Inr rs \<Longrightarrow> fs = map Inr rs"
  by (induction fs q arbitrary: rs rule: process_results.induct) (auto split: sum.splits)

text \<open>What a worker's \<open>train_remote\<close> returns when it returns normally.\<close>

lemma train_remote_value:
  assumes "fst (train_remote host_train tr q w p) = Inr r"
  shows "if hvd_rank w \<noteq> 0 then r = None
         else (\<exists>t m t'. ray_get tr = Some t
                 \<and> host_train w (if on_gpu t then t\<lparr>root_gpu := Some (hvd_local_rank w)\<rparr> else t)
                     = Inr (m, t')
                 \<and> r = Some (m, state_dict (model t'),
                        case checkpoint_callback t' of None \<Rightarrow> None | Some cb \<Rightarrow> best_model_path cb))"
proof (cases "ray_get tr")
  case None
  then show ?thesis using assms by (simp add: train_remote_def Let_def)
next
  case (Some t)
  let ?t = "if on_gpu t then t\<lparr>root_gpu := Some (hvd_local_rank w)\<rparr> else t"
  show ?thesis
  proof (cases "host_train w ?t")
    case (Inl e)
    then show ?thesis using assms Some by (simp add: train_remote_def Let_def)
  next
    case (Inr mt)
    obtain m t' where mt: "mt = (m, t')" by (cases mt)
    show ?thesis
    proof (cases "hvd_rank w = 0")
      case True
      then have "r = Some (m, state_dict (model t'),
                        case checkpoint_callback t' of None \<Rightarrow> None | Some cb \<Rightarrow> best_model_path cb)"
        using assms Some Inr mt by (simp add: train_remote_def Let_def)
      then show ?thesis using True Some Inr mt by simp
    next
      case False
      then show ?thesis using assms Some Inr mt by (simp add: train_remote_def Let_def)
    qed
  qed
qed

text \<open>Among ranks that are distinct and cover \<open>0..<N\<close>, \<open>N \<ge> 1\<close>, exactly one is 0.\<close>

lemma one_rank_zero:
  assumes "ws \<noteq> []" "distinct (map hvd_rank ws)" "set (map hvd_rank ws) = {0..<length ws}"
  shows "length (filter (\<lambda>w. hvd_rank w = 0) ws) = 1"
proof -
  have "length (filter (\<lambda>r. r = 0) (map hvd_rank ws)) = card ({r. r = 0} \<inter> set (map hvd_rank ws))"
    using assms(2) by (rule distinct_length_filter)
  also have "{r. r = 0} \<inter> set (map hvd_rank ws) = {0}"
    using assms(1,3) by auto
  finally show ?thesis by (simp add: filter_map comp_def)
qed

subsection \<open>train_remote\<close>

text \<open>
  C1.  For \<open>N \<ge> 1\<close> workers whose communication ranks are distinct and cover \<open>0..<N\<close>,
  after a successful run (every call of \<open>train_remote\<close> returned) exactly one of the
  \<open>N\<close> returned values is not \<open>None\<close>: every worker of rank other than 0 returns
  \<open>None\<close>, and the rank-0 worker returns the triple of the host loop's results, the
  state dict of its model and the best checkpoint path, which is \<open>None\<close> when its trainer
  has no checkpoint callback.
\<close>

theorem train_remote_only_rank0_result:
  fixes host_train :: "('sd, 'v, 'r) host_train" and pw :: "worker \<Rightarrow> ('v, 'c) proc"
  assumes "ws \<noteq> []"
    and "distinct (map hvd_rank ws)" and "set (map hvd_rank ws) = {0..<length ws}"
    and "process_results (map (\<lambda>w. fst (train_remote host_train tr q w (pw w))) ws) q = Inr results"
  shows "length results = length ws
       \<and> length (filter (\<lambda>r. r \<noteq> None) results) = 1
       \<and> (\<forall>i < length ws.
            if hvd_rank (ws ! i) \<noteq> 0 then results ! i = None
            else (\<exists>t m t'. ray_get tr = Some t
                    \<and> host_train (ws ! i)
                         (if on_gpu t then t\<lparr>root_gpu := Some (hvd_local_rank (ws ! i))\<rparr> else t)
                        = Inr (m, t')
                    \<and> results ! i = Some (m, state_dict (model t'),
                         case checkpoint_callback t' of
                           None \<Rightarrow> None
                         | Some cb \<Rightarrow> best_model_path cb)))"
proof -
  let ?f = "\<lambda>w. fst (train_remote host_train tr q w (pw w))"
  from assms(4) have eq: "map ?f ws = map Inr results" by (rule process_results_InrD)
  have len: "length results = length ws"
    using arg_cong [OF eq, of length] by simp
  have val: "?f (ws ! i) = Inr (results ! i)" if "i < length ws" for i
    using arg_cong [OF eq, of "\<lambda>xs. xs ! i"] that len by simp
  have each: "if hvd_rank (ws ! i) \<noteq> 0 then results ! i = None
            else (\<exists>t m t'. ray_get tr = Some t
                    \<and> host_train (ws ! i)
                         (if on_gpu t then t\<lparr>root_gpu := Some (hvd_local_rank (ws ! i))\<rparr> else t)
                        = Inr (m, t')
                    \<and> results ! i = Some (m, state_dict (model t'),
                         case checkpoint_callback t' of
                           None \<Rightarrow> None
                         | Some cb \<Rightarrow> best_model_path cb))" if "i < length ws" for i
    using train_remote_value [OF val [OF that]] .
  have iff: "(results ! i \<noteq> None) = (hvd_rank (ws ! i) = 0)" if "i < length ws" for i
  proof (cases "hvd_rank (ws ! i) = 0")
    case True
    with each [OF that] show ?thesis by auto
  next
    case False
    with each [OF that] show ?thesis by simp
  qed
  have "map (\<lambda>r. r \<noteq> None) results = map (\<lambda>w. hvd_rank w = 0) ws"
  proof (rule nth_equalityI)
    show "length (map (\<lambda>r. r \<noteq> None) results) = length (map (\<lambda>w. hvd_rank w = 0) ws)"
      by (simp add: len)
  next
    fix i assume "i < length (map (\<lambda>r. r \<noteq> None) results)"
    then have ir: "i < length results" by simp
    then have iw: "i < length ws" by (simp add: len)
    show "map (\<lambda>r. r \<noteq> None) results ! i = map (\<lambda>w. hvd_rank w = 0) ws ! i"
      using iff [OF iw] by (simp only: nth_map [OF ir] nth_map [OF iw])
  qed
  then have "length (filter id (map (\<lambda>r. r \<noteq> None) results))
             = length (filter id (map (\<lambda>w. hvd_rank w = 0) ws))" by (rule arg_cong)
  then have "length (filter (\<lambda>r. r \<noteq> None) results) = length (filter (\<lambda>w. hvd_rank w = 0) ws)"
    by (simp add: filter_map comp_def)
  with one_rank_zero [OF assms(1-3)] have one: "length (filter (\<lambda>r. r \<noteq> None) results) = 1"
    by simp
  show ?thesis
  proof (intro conjI allI impI)
    show "length results = length ws" by (rule len)
    show "length (filter (\<lambda>r. r \<noteq> None) results) = 1" by (rule one)
  next
    fix i assume "i < length ws"
    then show "if hvd_rank (ws ! i) \<noteq> 0 then results ! i = None
            else (\<exists>t m t'. ray_get tr = Some t
                    \<and> host_train (ws ! i)
                         (if on_gpu t then t\<lparr>root_gpu := Some (hvd_local_rank (ws ! i))\<rparr> else t)
                        = Inr (m, t')
                    \<and> results ! i = Some (m, state_dict (model t'),
                         case checkpoint_callback t' of
                           None \<Rightarrow> None
                         | Some cb \<Rightarrow> best_model_path cb))"
      by (rule each)
  qed
qed

theorem train_remote_only_rank0_result_witness:
  "example_workers \<noteq> []
   \<and> distinct (map hvd_rank example_workers)
   \<and> set (map hvd_rank example_workers) = {0..<length example_workers}
   \<and> process_results
        (map (\<lambda>w. fst (train_remote example_host (ray_put (Some example_trainer)) None w
                         (fresh_proc :: (int, string) proc))) example_workers) None
       = Inr [Some ([(''val_loss'', 1)], ''w1'', Some ''best.ckpt''), None]
   \<and> length (filter (\<lambda>r. r \<noteq> None)
        [Some ([(''val_loss'', 1 :: int)], ''w1'', Some ''best.ckpt''), None]) = 1"
proof -
  have h1: "example_workers \<noteq> []" by (simp add: example_workers_def)
  have h2: "distinct (map hvd_rank example_workers)" by (simp add: example_workers_def)
  have h3: "set (map hvd_rank example_workers) = {0..<length example_workers}"
    by (auto simp: example_workers_def)
  have h4: "process_results
        (map (\<lambda>w. fst (train_remote example_host (ray_put (Some example_trainer)) None w
                         (fresh_proc :: (int, string) proc))) example_workers) None
       = Inr [Some ([(''val_loss'', 1)], ''w1'', Some ''best.ckpt''), None]"
    by (simp add: ex_defs train_remote_def ray_put_def state_dict_def Let_def)
  show ?thesis
    using h1 h2 h3 h4 train_remote_only_rank0_result [OF h1 h2 h3 h4] by blast
qed

subsection \<open>train\<close>

text \<open>
  C2.  When \<open>train\<close> returns normally with \<open>m\<close>, the workers' results were collected,
  the result at the first position is a triple \<open>(m, sd, bp)\<close>, and \<open>m\<close> is its first
  component; the driver's accelerator holds its trainer again, with the model's state
  replaced by \<open>sd\<close> (so the driver's weights are exactly the returned state), and with
  the checkpoint callback's \<open>best_model_path\<close> set to \<open>bp\<close> if a checkpoint callback is
  configured; without one the trainer still has none.  Nothing else changes.
\<close>

theorem train_applies_first_result:
  fixes host_train :: "('sd, 'v, 'r) host_train"
  assumes "train e host_train self c = (Inr m, self', c')"
  shows "\<exists>ex t q results sd bp.
           acc_executor self = Some ex \<and> acc_trainer self = Some t
         \<and> q = (if TUNE_INSTALLED e \<and> is_session_enabled e
                then Some \<lparr>actor_options = [(''num_cpus'', 0)]\<rparr> else None)
         \<and> process_results
              (map (\<lambda>w. fst (train_remote host_train (ray_put (Some t)) q w
                               (fresh_proc :: ('v, unit) proc))) (workers ex)) q
             = Inr results
         \<and> results \<noteq> [] \<and> results ! 0 = Some (m, sd, bp)
         \<and> self' = self\<lparr>acc_trainer :=
                      Some (t\<lparr>model := load_state_dict (model t) sd,
                              checkpoint_callback :=
                                (case checkpoint_callback t of
                                   None \<Rightarrow> None
                                 | Some cb \<Rightarrow> Some (cb\<lparr>best_model_path := bp\<rparr>))\<rparr>)\<rparr>
         \<and> (\<forall>t'. acc_trainer self' = Some t' \<longrightarrow> state_dict (model t') = sd)"
proof -
  let ?q = "if TUNE_INSTALLED e \<and> is_session_enabled e
            then Some \<lparr>actor_options = [(''num_cpus'', 0)]\<rparr> else None"
  obtain ex where ex: "acc_executor self = Some ex"
    using assms by (cases "acc_executor self") (auto simp: train_def Let_def Queue_init_def split: if_splits)
  let ?futs = "\<lambda>tr. map (\<lambda>w. fst (train_remote host_train tr ?q w
                               (fresh_proc :: ('v, unit) proc))) (workers ex)"
  let ?T = "train e host_train self c"
  have T: "fst ?T = Inr m" "fst (snd ?T) = self'" using assms by simp_all
  have unfold: "(fst ?T, fst (snd ?T)) =
      (case process_results (?futs (ray_put (acc_trainer self))) ?q of
         Inl err \<Rightarrow> (Inl err, self\<lparr>acc_trainer := None\<rparr>)
       | Inr results \<Rightarrow>
          (case results of
             [] \<Rightarrow> (Inl IndexError, self\<lparr>acc_trainer := None\<rparr>)
           | None # rest \<Rightarrow> (Inl TypeError, self\<lparr>acc_trainer := None\<rparr>)
           | Some (res, sd, bp) # rest \<Rightarrow>
              (case acc_trainer self of
                 None \<Rightarrow> (Inl AttributeError, self\<lparr>acc_trainer := None\<rparr>)
               | Some t \<Rightarrow>
                  (Inr res,
                   self\<lparr>acc_trainer :=
                      Some (t\<lparr>model := load_state_dict (model t) sd,
                              checkpoint_callback :=
                                (case checkpoint_callback t of
                                   None \<Rightarrow> None
                                 | Some cb \<Rightarrow> Some (cb\<lparr>best_model_path := bp\<rparr>))\<rparr>)\<rparr>))))"
    using ex
    by (auto simp: train_def Let_def Queue_init_def run_async_def
        split: option.splits sum.splits list.splits prod.splits)
  note U = unfold [unfolded T]
  obtain results where res: "process_results (?futs (ray_put (acc_trainer self))) ?q = Inr results"
    using U by (cases "process_results (?futs (ray_put (acc_trainer self))) ?q") auto
  obtain r rest where r: "results = r # rest"
    using U res by (cases results) auto
  obtain res0 sd bp where r0: "r = Some (res0, sd, bp)"
    using U res r by (cases r) auto
  obtain t where t: "acc_trainer self = Some t"
    using U res r r0 by (cases "acc_trainer self") auto
  have m: "res0 = m" and s': "self' = self\<lparr>acc_trainer :=
                      Some (t\<lparr>model := load_state_dict (model t) sd,
                              checkpoint_callback :=
                                (case checkpoint_callback t of
                                   None \<Rightarrow> None
                                 | Some cb \<Rightarrow> Some (cb\<lparr>best_model_path := bp\<rparr>))\<rparr>)\<rparr>"
    using U res r r0 t by auto
  have sd: "\<forall>t'. acc_trainer self' = Some t' \<longrightarrow> state_dict (model t') = sd"
    using s' by (auto simp: state_dict_def load_state_dict_def)
  show ?thesis
    apply (rule exI [of _ ex], rule exI [of _ t], rule exI [of _ ?q], rule exI [of _ results],
           rule exI [of _ sd], rule exI [of _ bp])
    using ex t res r r0 m s' sd by simp
qed

theorem train_applies_first_result_witness:
  "train (example_env True) example_host example_accelerator example_cluster
     = (Inr [(''val_loss'', 1)],
        example_accelerator\<lparr>acc_trainer :=
          Some (example_trainer\<lparr>model := \<lparr>weights = ''w1''\<rparr>,
                  checkpoint_callback := Some \<lparr>best_model_path = Some ''best.ckpt''\<rparr>\<rparr>)\<rparr>,
        snd (snd (train (example_env True) example_host example_accelerator example_cluster)))
   \<and> (\<exists>t'. acc_trainer (example_accelerator\<lparr>acc_trainer :=
          Some (example_trainer\<lparr>model := \<lparr>weights = ''w1''\<rparr>,
                  checkpoint_callback := Some \<lparr>best_model_path = Some ''best.ckpt''\<rparr>\<rparr>)\<rparr>)
            = Some t' \<and> state_dict (model t') = ''w1''
          \<and> checkpoint_callback t' = Some \<lparr>best_model_path = Some ''best.ckpt''\<rparr>)"
proof -
  have h: "train (example_env True) example_host example_accelerator example_cluster
     = (Inr [(''val_loss'', 1)],
        example_accelerator\<lparr>acc_trainer :=
          Some (example_trainer\<lparr>model := \<lparr>weights = ''w1''\<rparr>,
                  checkpoint_callback := Some \<lparr>best_model_path = Some ''best.ckpt''\<rparr>\<rparr>)\<rparr>,
        snd (snd (train (example_env True) example_host example_accelerator example_cluster)))"
    by (simp add: prod_eq_iff ex_defs train_def train_remote_def ray_put_def state_dict_def
        load_state_dict_def Let_def is_session_enabled_def Queue_init_def run_async_def
        fresh_proc_def init_session_def)
  from train_applies_first_result [OF h]
  have "\<exists>t'. acc_trainer (example_accelerator\<lparr>acc_trainer :=
          Some (example_trainer\<lparr>model := \<lparr>weights = ''w1''\<rparr>,
                  checkpoint_callback := Some \<lparr>best_model_path = Some ''best.ckpt''\<rparr>\<rparr>)\<rparr>)
            = Some t' \<and> state_dict (model t') = ''w1''
          \<and> checkpoint_callback t' = Some \<lparr>best_model_path = Some ''best.ckpt''\<rparr>"
    by (auto simp: state_dict_def)
  with h show ?thesis by blast
qed

subsection \<open>Construction without Horovod\<close>

text \<open>
  C6.  If Horovod could not be imported, constructing a \<open>HorovodRayAccelerator\<close> raises
  \<open>RuntimeError\<close> (no accelerator is built), and the message says that Horovod is not
  installed and contains the address of the installation instructions.
\<close>

theorem init_without_horovod_raises:
  assumes "\<not> HOROVOD_AVAILABLE e"
  shows "(HorovodRayAccelerator_init e hosts slots gpu :: error + ('sd, 'v) HorovodRayAccelerator)
           = Inl (RuntimeError
               ''Horovod is not installed. Please intall it (https://horovod.readthedocs.io/en/stable/install_include.html) to use the HorovodRayAccelerator.'')
       \<and> sublist ''Horovod is not installed''
           ''Horovod is not installed. Please intall it (https://horovod.readthedocs.io/en/stable/install_include.html) to use the HorovodRayAccelerator.''
       \<and> sublist ''https://horovod.readthedocs.io/en/stable/install_include.html''
           ''Horovod is not installed. Please intall it (https://horovod.readthedocs.io/en/stable/install_include.html) to use the HorovodRayAccelerator.''"
proof (intro conjI)
  show "(HorovodRayAccelerator_init e hosts slots gpu :: error + ('sd, 'v) HorovodRayAccelerator)
           = Inl (RuntimeError
               ''Horovod is not installed. Please intall it (https://horovod.readthedocs.io/en/stable/install_include.html) to use the HorovodRayAccelerator.'')"
    using assms by (simp add: HorovodRayAccelerator_init_def)
  have "''Horovod is not installed. Please intall it (https://horovod.readthedocs.io/en/stable/install_include.html) to use the HorovodRayAccelerator.''
        = [] @ ''Horovod is not installed'' @ ''. Please intall it (https://horovod.readthedocs.io/en/stable/install_include.html) to use the HorovodRayAccelerator.''"
    by simp
  then show "sublist ''Horovod is not installed''
           ''Horovod is not installed. Please intall it (https://horovod.readthedocs.io/en/stable/install_include.html) to use the HorovodRayAccelerator.''"
    unfolding sublist_def by blast
  have "''Horovod is not installed. Please intall it (https://horovod.readthedocs.io/en/stable/install_include.html) to use the HorovodRayAccelerator.''
        = ''Horovod is not installed. Please intall it ('' @ ''https://horovod.readthedocs.io/en/stable/install_include.html'' @ '') to use the HorovodRayAccelerator.''"
    by simp
  then show "sublist ''https://horovod.readthedocs.io/en/stable/install_include.html''
           ''Horovod is not installed. Please intall it (https://horovod.readthedocs.io/en/stable/install_include.html) to use the HorovodRayAccelerator.''"
    unfolding sublist_def by blast
qed

theorem init_without_horovod_raises_witness:
  "\<not> HOROVOD_AVAILABLE ((example_env False)\<lparr>HOROVOD_AVAILABLE := False\<rparr>)
   \<and> (HorovodRayAccelerator_init ((example_env False)\<lparr>HOROVOD_AVAILABLE := False\<rparr>) 1 2 False
        :: error + (string, int) HorovodRayAccelerator)
       = Inl (RuntimeError
               ''Horovod is not installed. Please intall it (https://horovod.readthedocs.io/en/stable/install_include.html) to use the HorovodRayAccelerator.'')"
proof -
  have h: "\<not> HOROVOD_AVAILABLE ((example_env False)\<lparr>HOROVOD_AVAILABLE := False\<rparr>)" by simp
  show ?thesis using h init_without_horovod_raises [OF h, of 1 2 False] by blast
qed

subsection \<open>Queue creation and dispatch\<close>

text \<open>
  C10.  With an executor set up, \<open>train\<close> creates a queue actor, with the actor option
  \<open>num_cpus = 0\<close>, exactly when the tuning library is installed and a tuning session is
  enabled, and creates none otherwise; it submits one task per worker, and every task
  gets the same arguments: the reference to the stored trainer, and that queue or
  \<open>None\<close>.
\<close>

theorem train_queue_iff_tune_session:
  fixes host_train :: "('sd, 'v, 'r) host_train"
  assumes "acc_executor self = Some ex"
  shows "(TUNE_INSTALLED e \<and> is_session_enabled e \<longrightarrow>
            queue_actors (snd (snd (train e host_train self c)))
              = queue_actors c @ [\<lparr>actor_options = [(''num_cpus'', 0)]\<rparr>]
          \<and> tasks (snd (snd (train e host_train self c)))
              = tasks c @ map (\<lambda>w. (w, ray_put (acc_trainer self),
                                       Some \<lparr>actor_options = [(''num_cpus'', 0)]\<rparr>)) (workers ex))
       \<and> (\<not> (TUNE_INSTALLED e \<and> is_session_enabled e) \<longrightarrow>
            queue_actors (snd (snd (train e host_train self c))) = queue_actors c
          \<and> tasks (snd (snd (train e host_train self c)))
              = tasks c @ map (\<lambda>w. (w, ray_put (acc_trainer self), None)) (workers ex))"
  using assms
  by (auto simp: train_def Let_def Queue_init_def run_async_def
      split: option.splits sum.splits list.splits prod.splits)

theorem train_queue_iff_tune_session_witness:
  "acc_executor example_accelerator = Some \<lparr>workers = example_workers\<rparr>
   \<and> queue_actors (snd (snd (train (example_env True) example_host example_accelerator
                                example_cluster)))
       = [\<lparr>actor_options = [(''num_cpus'', 0)]\<rparr>]
   \<and> map snd (tasks (snd (snd (train (example_env True) example_host example_accelerator
                                example_cluster))))
       = [(ObjectRef (Some example_trainer), Some \<lparr>actor_options = [(''num_cpus'', 0)]\<rparr>),
          (ObjectRef (Some example_trainer), Some \<lparr>actor_options = [(''num_cpus'', 0)]\<rparr>)]
   \<and> queue_actors (snd (snd (train (example_env False) example_host example_accelerator
                                example_cluster))) = []
   \<and> map snd (tasks (snd (snd (train (example_env False) example_host example_accelerator
                                example_cluster))))
       = [(ObjectRef (Some example_trainer), None), (ObjectRef (Some example_trainer), None)]"
proof -
  have h: "acc_executor example_accelerator = Some \<lparr>workers = example_workers\<rparr>"
    by (simp add: example_accelerator_def)
  note t = train_queue_iff_tune_session [OF h, of _ example_host example_cluster]
  show ?thesis
    using h t [of "example_env True"] t [of "example_env False"]
    by (simp add: example_env_def is_session_enabled_def example_cluster_def ray_put_def
        example_accelerator_def example_workers_def)
qed

end
